theory Spec2Isabelle
  imports Complex_Main
begin

section \<open>Floating-point values\<close>

text \<open>
  The statistics of \<^verbatim>\<open>src/04_zonal_stats.py\<close> are computed by numpy on IEEE-754 binary
  floating-point numbers. A value is a finite number, an infinity or NaN; a finite value is
  kept as the exact rational it denotes (the sign of zero is not distinguished, since no
  statistic depends on it). Rounding to a format with \<open>p\<close> significand bits and exponents
  between \<open>emin\<close> and \<open>emax\<close> is round-to-nearest, ties to even, with gradual underflow
  and overflow to infinity.
\<close>

datatype fval = Finite rat | PosInf | NegInf | NaN

function bit_length :: "int \<Rightarrow> int" where
  "bit_length n = (if n \<le> 0 then 0 else 1 + bit_length (n div 2))"
  by pat_completeness auto
termination
  by (relation "measure nat") auto

declare bit_length.simps [simp del]

function power2 :: "int \<Rightarrow> rat" where
  "power2 e = (if e \<le> 0 then 1
               else if even e then power2 (e div 2) * power2 (e div 2)
               else 2 * power2 (e div 2) * power2 (e div 2))"
  by pat_completeness auto
termination
  by (relation "measure nat") auto

declare power2.simps [simp del]

definition pow2 :: "int \<Rightarrow> rat" where
  "pow2 e = (if 0 \<le> e then power2 e else 1 / power2 (- e))"

text \<open>\<open>ilog2 q\<close> is the exponent \<open>e\<close> with \<open>2^e \<le> q < 2^(e+1)\<close>, for positive \<open>q\<close>.\<close>

definition ilog2 :: "rat \<Rightarrow> int" where
  "ilog2 q =
     (let (a, b) = quotient_of q;
          d = bit_length a - bit_length b
      in if pow2 d \<le> q then d else d - 1)"

definition round_half_even :: "rat \<Rightarrow> int" where
  "round_half_even q =
     (let f = \<lfloor>q\<rfloor>; d = q - of_int f
      in if d < 1 / 2 then f
         else if 1 / 2 < d then f + 1
         else if even f then f else f + 1)"

definition round_to :: "nat \<Rightarrow> int \<Rightarrow> int \<Rightarrow> rat \<Rightarrow> fval" where
  "round_to p emin emax q =
     (if q = 0 then Finite 0
      else
        let a = \<bar>q\<bar>;
            e = max (ilog2 a) emin;
            ulp = pow2 (e - int p + 1);
            r = of_int (round_half_even (a / ulp)) * ulp
        in if pow2 (emax + 1) \<le> r then (if 0 < q then PosInf else NegInf)
           else Finite (if 0 < q then r else - r))"

definition float32 :: "rat \<Rightarrow> fval" where
  "float32 = round_to 24 (- 126) 127"

definition float64 :: "rat \<Rightarrow> fval" where
  "float64 = round_to 53 (- 1022) 1023"

text \<open>\<^verbatim>\<open>arr.astype("float32")\<close>, element by element.\<close>

fun astype_float32 :: "fval \<Rightarrow> fval" where
  "astype_float32 (Finite q) = float32 q"
| "astype_float32 v = v"

text \<open>\<^verbatim>\<open>np.isfinite\<close>.\<close>

fun isfinite :: "fval \<Rightarrow> bool" where
  "isfinite (Finite q) = True"
| "isfinite v = False"

text \<open>IEEE equality and order: every comparison with NaN is false.\<close>

definition float_eq :: "fval \<Rightarrow> fval \<Rightarrow> bool" where
  "float_eq a b = (a \<noteq> NaN \<and> a = b)"

fun float_le :: "fval \<Rightarrow> fval \<Rightarrow> bool" where
  "float_le NaN b = False"
| "float_le a NaN = False"
| "float_le NegInf b = True"
| "float_le a PosInf = True"
| "float_le (Finite x) (Finite y) = (x \<le> y)"
| "float_le a b = False"

text \<open>Addition in float32 and division in float64.\<close>

fun f32_add :: "fval \<Rightarrow> fval \<Rightarrow> fval" where
  "f32_add (Finite x) (Finite y) = float32 (x + y)"
| "f32_add NaN b = NaN"
| "f32_add a NaN = NaN"
| "f32_add PosInf NegInf = NaN"
| "f32_add NegInf PosInf = NaN"
| "f32_add PosInf b = PosInf"
| "f32_add NegInf b = NegInf"
| "f32_add a b = b"

fun f64_div_count :: "fval \<Rightarrow> nat \<Rightarrow> fval" where
  "f64_div_count (Finite s) n = float64 (s / of_nat n)"
| "f64_div_count v n = v"

section \<open>The numpy reductions used by the loop\<close>

text \<open>
  \<^verbatim>\<open>valid.min()\<close> and \<^verbatim>\<open>valid.max()\<close> propagate NaN. numpy raises on an array of size
  zero; the source calls them only after testing \<^verbatim>\<open>valid.size == 0\<close>, so the first
  equation of each is never reached from \<open>zone_statistics\<close>.
\<close>

definition fmin :: "fval \<Rightarrow> fval \<Rightarrow> fval" where
  "fmin a b = (if a = NaN \<or> b = NaN then NaN else if float_le a b then a else b)"

definition fmax :: "fval \<Rightarrow> fval \<Rightarrow> fval" where
  "fmax a b = (if a = NaN \<or> b = NaN then NaN else if float_le a b then b else a)"

fun np_min :: "fval list \<Rightarrow> fval" where
  "np_min [] = NaN"
| "np_min [x] = x"
| "np_min (x # xs) = fmin x (np_min xs)"

fun np_max :: "fval list \<Rightarrow> fval" where
  "np_max [] = NaN"
| "np_max [x] = x"
| "np_max (x # xs) = fmax x (np_max xs)"

text \<open>
  \<^verbatim>\<open>valid.mean()\<close> on a float32 array adds the elements in float32 (numpy's pairwise
  summation: a plain loop below 8 elements, eight running sums up to 128 elements, a split
  in two halves above), divides the float32 sum by the element count in float64 and stores
  the quotient as float32.
\<close>

definition accumulator :: "fval list \<Rightarrow> nat \<Rightarrow> nat \<Rightarrow> fval" where
  "accumulator a m k = foldl f32_add (a ! k) (map (\<lambda>j. a ! (k + 8 * j)) [1 ..< m div 8])"

function pairwise_sum :: "fval list \<Rightarrow> fval" where
  "pairwise_sum a =
     (let n = length a in
      if n < 8 then foldl f32_add (Finite 0) a
      else if n \<le> 128 then
        (let m = n - n mod 8;
             r = accumulator a m;
             res = f32_add (f32_add (f32_add (r 0) (r 1)) (f32_add (r 2) (r 3)))
                           (f32_add (f32_add (r 4) (r 5)) (f32_add (r 6) (r 7)))
         in foldl f32_add res (drop m a))
      else
        (let n2 = n div 2 - (n div 2) mod 8
         in f32_add (pairwise_sum (take n2 a)) (pairwise_sum (drop n2 a))))"
  by pat_completeness auto
termination
  by (relation "measure length") auto

declare pairwise_sum.simps [simp del]

definition np_mean :: "fval list \<Rightarrow> fval" where
  "np_mean a = astype_float32 (f64_div_count (pairwise_sum a) (length a))"

section \<open>Rasters, zone sets and the world they are read from\<close>

text \<open>
  A raster dataset as \<^verbatim>\<open>rasterio.open\<close> exposes it to the source: its coordinate
  reference system (\<^verbatim>\<open>src.crs\<close>, \<^verbatim>\<open>None\<close> for a raster that is not georeferenced), its
  declared nodata sentinel (\<^verbatim>\<open>src.nodata\<close>, a Python float or \<^verbatim>\<open>None\<close>) and windowed
  reads of band 1. The geometric part of
  \<^verbatim>\<open>rasterio.mask.mask(src, [geom], crop=True)\<close> (the bounding window of the shape and
  which of its pixels the shape covers) is not re-specified: \<open>read_window src geom\<close> is
  either the message of the exception the library raises for this shape (a shape that does
  not overlap the raster, a geometry it rejects) or the pixels of the crop window in
  row-major order, each with the flag "covered by the shape".
\<close>

record 'g raster =
  raster_crs :: "string option"
  nodata :: "fval option"
  read_window :: "'g \<Rightarrow> string + (fval \<times> bool) list"

text \<open>
  \<^verbatim>\<open>mask\<close> is called with its defaults \<^verbatim>\<open>filled=True, nodata=None\<close>: the pixels of the
  window that the shape does not cover are set to the raster's nodata value, and to 0 when
  the raster declares none (the library's documented fill value). A covered pixel keeps
  its value; one that equals the nodata value is filled with that same value. Band 1 of
  the result is returned.
\<close>

definition fill_value :: "'g raster \<Rightarrow> fval" where
  "fill_value src = (case nodata src of Some nd \<Rightarrow> nd | None \<Rightarrow> Finite 0)"

definition mask :: "'g raster \<Rightarrow> 'g \<Rightarrow> string + fval list" where
  "mask src geom =
     (case read_window src geom of
        Inl e \<Rightarrow> Inl e
      | Inr window \<Rightarrow> Inr (map (\<lambda>(v, covered). if covered then v else fill_value src) window))"

text \<open>
  A GeoDataFrame: an optional CRS, the names of the attribute columns and the rows in
  file order. The index is the default \<^verbatim>\<open>RangeIndex\<close> that \<^verbatim>\<open>gpd.read_file\<close> creates,
  so the label of a row is its position. The geometry of a row is \<^verbatim>\<open>None\<close> for a feature
  that the file gives without geometry (\<^verbatim>\<open>"geometry": null\<close> in GeoJSON).
\<close>

datatype cell = StrCell string | IntCell int | FloatCell fval

record 'g row =
  geometry :: "'g option"
  cells :: "string \<Rightarrow> cell option"

record 'g geodataframe =
  gdf_crs :: "string option"
  columns :: "string list"
  rows :: "'g row list"

datatype error =
    FileNotFoundError string
  | ValueError string
  | AttributeError string
  | RasterioIOError string
  | DataSourceError string

datatype log_record = INFO string | WARNING string

text \<open>
  What the function reads besides its two arguments: the files that exist under a path,
  and the coordinate transformation of a geometry from one CRS to another (pyproj, through
  \<^verbatim>\<open>GeoDataFrame.to_crs\<close>). A file that exists either can be read, as a raster by
  \<^verbatim>\<open>rasterio.open\<close> and as a zone source by \<^verbatim>\<open>gpd.read_file\<close>, or makes the reader raise
  the exception of its driver, with the given message.
\<close>

datatype 'a contents = Unreadable string | Readable 'a

record 'g world =
  raster_files :: "string \<Rightarrow> 'g raster contents option"
  vector_files :: "string \<Rightarrow> 'g geodataframe contents option"
  transform :: "string \<Rightarrow> string \<Rightarrow> 'g \<Rightarrow> 'g"

section \<open>Data-frame operations\<close>

text \<open>Python's \<^verbatim>\<open>str\<close> of a non-negative integer.\<close>

definition digit :: "nat \<Rightarrow> char" where
  "digit d = ''0123456789'' ! d"

function string_of_nat :: "nat \<Rightarrow> string" where
  "string_of_nat n =
     (if n < 10 then [digit n] else string_of_nat (n div 10) @ [digit (n mod 10)])"
  by pat_completeness auto
termination
  by (relation "measure id") auto

declare string_of_nat.simps [simp del]

definition set_crs :: "string \<Rightarrow> 'g geodataframe \<Rightarrow> 'g geodataframe" where
  "set_crs c gdf = gdf\<lparr>gdf_crs := Some c\<rparr>"

text \<open>
  \<^verbatim>\<open>gdf.to_crs(target)\<close> raises on a frame without CRS, and when the target is
  \<^verbatim>\<open>None\<close>; a missing geometry stays missing.
\<close>

definition to_crs ::
    "'g world \<Rightarrow> string option \<Rightarrow> 'g geodataframe \<Rightarrow> error + 'g geodataframe" where
  "to_crs w target gdf =
     (case gdf_crs gdf of
        None \<Rightarrow> Inl (ValueError ''Cannot transform naive geometries.  Please set a crs on the object first.'')
      | Some c \<Rightarrow>
         (case target of
            None \<Rightarrow> Inl (ValueError ''Must pass either crs or epsg.'')
          | Some t \<Rightarrow>
              Inr (gdf\<lparr>gdf_crs := Some t,
                        rows := map (\<lambda>r. r\<lparr>geometry := map_option (transform w c t) (geometry r)\<rparr>)
                                  (rows gdf)\<rparr>)))"

text \<open>
  \<^verbatim>\<open>gdf[name] = values\<close>: the values are assigned by position; pandas raises when their
  number differs from the number of rows.
\<close>

definition set_column ::
    "string \<Rightarrow> cell list \<Rightarrow> 'g geodataframe \<Rightarrow> error + 'g geodataframe" where
  "set_column name vals gdf =
     (if length vals \<noteq> length (rows gdf) then
        Inl (ValueError (''Length of values ('' @ string_of_nat (length vals) @
               '') does not match length of index ('' @ string_of_nat (length (rows gdf)) @ '')''))
      else
        Inr (gdf\<lparr>columns := (if name \<in> set (columns gdf) then columns gdf
                                 else columns gdf @ [name]),
                  rows := map (\<lambda>(r, v). r\<lparr>cells := (cells r)(name \<mapsto> v)\<rparr>)
                              (zip (rows gdf) vals)\<rparr>))"

definition and_then :: "error + 'a \<Rightarrow> ('a \<Rightarrow> error + 'b) \<Rightarrow> error + 'b" where
  "and_then x f = (case x of Inl e \<Rightarrow> Inl e | Inr v \<Rightarrow> f v)"

section \<open>compute_zonal_mean\<close>

text \<open>
  Lines 52 to 62: the statistics of one clipped band. The comparison \<^verbatim>\<open>arr == nodata\<close>
  of a float32 array with a Python float is made in float32, the type of the array. (For a
  sentinel beyond the float32 range, numpy versions differ in whether an infinite pixel
  compares equal to it; such a pixel is not finite and is dropped by line 55 either way.)
\<close>

definition zone_statistics :: "fval option \<Rightarrow> fval list \<Rightarrow> fval \<times> fval \<times> fval \<times> int" where
  "zone_statistics nd out_img =
     (let arr = map astype_float32 out_img;
          arr = (case nd of
                   None \<Rightarrow> arr
                 | Some x \<Rightarrow> map (\<lambda>v. if float_eq v (astype_float32 x) then NaN else v) arr);
          valid = filter isfinite arr
      in if length valid = 0 then (NaN, NaN, NaN, 0)
         else (np_mean valid, np_min valid, np_max valid, int (length valid)))"

text \<open>The four result lists and the log, threaded through the loop.\<close>

record accumulators =
  means :: "fval list"
  mins :: "fval list"
  maxs :: "fval list"
  counts :: "int list"
  logged :: "log_record list"

text \<open>
  Lines 50 to 65: the \<^verbatim>\<open>try\<close> statement of one iteration. An exception of \<^verbatim>\<open>mask\<close> is
  caught by the \<^verbatim>\<open>except Exception\<close> clause; the statements after it in the \<^verbatim>\<open>try\<close>
  block raise nothing, and the four \<^verbatim>\<open>append\<close> calls of a branch come after everything
  that can fail.
\<close>

definition loop_body :: "'g raster \<Rightarrow> accumulators \<Rightarrow> nat \<Rightarrow> 'g \<Rightarrow> accumulators" where
  "loop_body src st idx geom =
     (case mask src geom of
        Inr out_img \<Rightarrow>
          (case zone_statistics (nodata src) out_img of
             (m, mn, mx, c) \<Rightarrow>
               st\<lparr>means := means st @ [m], mins := mins st @ [mn],
                  maxs := maxs st @ [mx], counts := counts st @ [c]\<rparr>)
      | Inl e \<Rightarrow>
          st\<lparr>means := means st @ [NaN], mins := mins st @ [NaN],
             maxs := maxs st @ [NaN], counts := counts st @ [0],
             logged := logged st @ [WARNING (''Polygon '' @ string_of_nat idx @ '' failed: '' @ e)]\<rparr>)"

text \<open>
  Lines 48 to 65: the loop over \<^verbatim>\<open>gdf.iterrows()\<close>. Line 49,
  \<^verbatim>\<open>geom = [mapping(row.geometry)]\<close>, stands before the \<^verbatim>\<open>try\<close>: for a row without
  geometry \<^verbatim>\<open>mapping(None)\<close> raises \<^verbatim>\<open>AttributeError\<close>, which nothing catches, so the
  loop ends there. The result is the state reached and the exception that ended the loop,
  if one did.
\<close>

fun zonal_loop ::
    "'g raster \<Rightarrow> accumulators \<Rightarrow> (nat \<times> 'g row) list \<Rightarrow> accumulators \<times> error option" where
  "zonal_loop src st [] = (st, None)"
| "zonal_loop src st ((idx, row) # rest) =
     (case geometry row of
        None \<Rightarrow> (st, Some (AttributeError ''NoneType object has no attribute __geo_interface__''))
      | Some geom \<Rightarrow> zonal_loop src (loop_body src st idx geom) rest)"

text \<open>Lines 68 to 76: the identifier column and the four statistics columns.\<close>

definition add_columns :: "accumulators \<Rightarrow> 'g geodataframe \<Rightarrow> error + 'g geodataframe" where
  "add_columns st gdf =
     and_then (if ''id'' \<notin> set (columns gdf)
               then set_column ''id'' (map (\<lambda>i. StrCell (string_of_nat i)) [0 ..< length (rows gdf)]) gdf
               else Inr gdf)
       (\<lambda>gdf. and_then (set_column ''ndvi_mean'' (map FloatCell (means st)) gdf)
       (\<lambda>gdf. and_then (set_column ''ndvi_min'' (map FloatCell (mins st)) gdf)
       (\<lambda>gdf. and_then (set_column ''ndvi_max'' (map FloatCell (maxs st)) gdf)
       (\<lambda>gdf. set_column ''ndvi_count'' (map IntCell (counts st)) gdf))))"

text \<open>
  The function returns what it wrote to the log together with the exception it raised or
  the frame it returned. Both paths are tested for existence first (lines 24 to 27), then
  the raster is opened (line 30), then the zone source is read (line 35). The raster is
  opened a second time on line 47, which succeeds as it did on line 30. The message of
  line 43 is written after \<^verbatim>\<open>to_crs\<close> has returned, so the raster has a CRS there.
\<close>

definition compute_zonal_mean ::
    "'g world \<Rightarrow> string \<Rightarrow> string \<Rightarrow> log_record list \<times> (error + 'g geodataframe)" where
  "compute_zonal_mean w raster_path vector_path =
     (case raster_files w raster_path of
        None \<Rightarrow> ([], Inl (FileNotFoundError (''Raster not found: '' @ raster_path)))
      | Some raster_file \<Rightarrow>
     (case vector_files w vector_path of
        None \<Rightarrow> ([], Inl (FileNotFoundError (''Vector not found: '' @ vector_path)))
      | Some vector_file \<Rightarrow>
     (case raster_file of
        Unreadable msg \<Rightarrow>
          ([INFO (''Loading raster: '' @ raster_path)], Inl (RasterioIOError msg))
      | Readable src \<Rightarrow>
     (let log1 = [INFO (''Loading raster: '' @ raster_path),
                  INFO (''Loading polygons: '' @ vector_path)]
      in case vector_file of
           Unreadable msg \<Rightarrow> (log1, Inl (DataSourceError msg))
         | Readable gdf0 \<Rightarrow>
             if rows gdf0 = [] then (log1, Inl (ValueError ''Vector file has no features.''))
             else
               (case to_crs w (raster_crs src)
                       (if gdf_crs gdf0 = None then set_crs ''EPSG:4326'' gdf0 else gdf0) of
                  Inl e \<Rightarrow> (log1, Inl e)
                | Inr gdf \<Rightarrow>
                   (case zonal_loop src
                           \<lparr>means = [], mins = [], maxs = [], counts = [],
                            logged = log1 @ [INFO (''Reprojected vector to raster CRS: '' @
                                                   the (raster_crs src))]\<rparr>
                           (enumerate 0 (rows gdf)) of
                      (st, Some e) \<Rightarrow> (logged st, Inl e)
                    | (st, None) \<Rightarrow> (logged st, add_columns st gdf)))))))"

section \<open>Reading the result\<close>

text \<open>The frame a call returned, if it returned one.\<close>

definition returned :: "log_record list \<times> (error + 'g geodataframe) \<Rightarrow> 'g geodataframe option" where
  "returned res = (case snd res of Inl e \<Rightarrow> None | Inr gdf \<Rightarrow> Some gdf)"

definition raised :: "log_record list \<times> (error + 'g geodataframe) \<Rightarrow> error option" where
  "raised res = (case snd res of Inl e \<Rightarrow> Some e | Inr gdf \<Rightarrow> None)"

text \<open>The statistics (mean, min, max, count) stored in a row, when all four are there.\<close>

definition statistics_of :: "'g row \<Rightarrow> (fval \<times> fval \<times> fval \<times> int) option" where
  "statistics_of r =
     (case (cells r ''ndvi_mean'', cells r ''ndvi_min'', cells r ''ndvi_max'', cells r ''ndvi_count'') of
        (Some (FloatCell m), Some (FloatCell mn), Some (FloatCell mx), Some (IntCell c)) \<Rightarrow>
          Some (m, mn, mx, c)
      | _ \<Rightarrow> None)"

definition column_values :: "string \<Rightarrow> 'g geodataframe \<Rightarrow> cell option list" where
  "column_values name gdf = map (\<lambda>r. cells r name) (rows gdf)"

text \<open>Whether every row has a geometry, and the geometries of such a frame.\<close>

definition has_geometries :: "'g geodataframe \<Rightarrow> bool" where
  "has_geometries gdf = list_all (\<lambda>r. geometry r \<noteq> None) (rows gdf)"

definition geometries :: "'g geodataframe \<Rightarrow> 'g list" where
  "geometries gdf = map (\<lambda>r. the (geometry r)) (rows gdf)"

definition statistics :: "'g geodataframe \<Rightarrow> (fval \<times> fval \<times> fval \<times> int) option list" where
  "statistics gdf = map statistics_of (rows gdf)"

text \<open>The CRS the zone geometries are taken to be in: the declared one, else EPSG:4326.\<close>

definition source_crs :: "'g geodataframe \<Rightarrow> string" where
  "source_crs gdf = (case gdf_crs gdf of None \<Rightarrow> ''EPSG:4326'' | Some c \<Rightarrow> c)"

text \<open>
  A pixel value is valid for the loop when its float32 value is finite and differs from the
  float32 value of the declared nodata sentinel.
\<close>

definition is_valid :: "fval option \<Rightarrow> fval \<Rightarrow> bool" where
  "is_valid nd v =
     (isfinite (astype_float32 v) \<and>
      (case nd of None \<Rightarrow> True | Some x \<Rightarrow> \<not> float_eq (astype_float32 v) (astype_float32 x)))"

text \<open>The outcome of one iteration: the zero-coverage tuple when the clip raises.\<close>

definition zone_outcome :: "'g raster \<Rightarrow> 'g \<Rightarrow> fval \<times> fval \<times> fval \<times> int" where
  "zone_outcome src geom =
     (case mask src geom of
        Inl e \<Rightarrow> (NaN, NaN, NaN, 0)
      | Inr out_img \<Rightarrow> zone_statistics (nodata src) out_img)"

definition zone_warnings :: "'g raster \<Rightarrow> nat \<Rightarrow> 'g \<Rightarrow> log_record list" where
  "zone_warnings src idx geom =
     (case mask src geom of
        Inl e \<Rightarrow> [WARNING (''Polygon '' @ string_of_nat idx @ '' failed: '' @ e)]
      | Inr out_img \<Rightarrow> [])"

text \<open>
  The geometry of zone \<open>i\<close> in the CRS of the raster, for a raster that has a CRS and a
  zone that has a geometry, and the cells of its result row.
\<close>

definition reprojected :: "'g world \<Rightarrow> 'g raster \<Rightarrow> 'g geodataframe \<Rightarrow> nat \<Rightarrow> 'g" where
  "reprojected w src gdf i =
     transform w (source_crs gdf) (the (raster_crs src)) (the (geometry (rows gdf ! i)))"

definition result_cells ::
    "'g geodataframe \<Rightarrow> nat \<Rightarrow> fval \<times> fval \<times> fval \<times> int \<Rightarrow> string \<Rightarrow> cell option" where
  "result_cells gdf i t =
     (case t of (m, mn, mx, c) \<Rightarrow>
        (if ''id'' \<in> set (columns gdf) then cells (rows gdf ! i)
         else (cells (rows gdf ! i))(''id'' \<mapsto> StrCell (string_of_nat i)))
        (''ndvi_mean'' \<mapsto> FloatCell m, ''ndvi_min'' \<mapsto> FloatCell mn,
         ''ndvi_max'' \<mapsto> FloatCell mx, ''ndvi_count'' \<mapsto> IntCell c))"

definition loading_log :: "'g raster \<Rightarrow> string \<Rightarrow> string \<Rightarrow> log_record list" where
  "loading_log src raster_path vector_path =
     [INFO (''Loading raster: '' @ raster_path), INFO (''Loading polygons: '' @ vector_path),
      INFO (''Reprojected vector to raster CRS: '' @ the (raster_crs src))]"

text \<open>The zone source that holds only the zone at position \<open>j\<close>.\<close>

definition single_zone :: "'g geodataframe \<Rightarrow> nat \<Rightarrow> 'g geodataframe" where
  "single_zone gdf j = gdf\<lparr>rows := [rows gdf ! j]\<rparr>"

definition with_zones :: "'g world \<Rightarrow> string \<Rightarrow> 'g geodataframe \<Rightarrow> 'g world" where
  "with_zones w vector_path gdf =
     w\<lparr>vector_files := (vector_files w)(vector_path \<mapsto> Readable gdf)\<rparr>"

section \<open>Concrete rasters and zones\<close>

text \<open>
  A raster given by its grid of pixel values, for zones given as the list of the pixels
  (row, column) they cover: the crop window is the bounding box of the covered pixels that
  lie on the grid, and a zone that covers no pixel of the grid does not overlap the raster.
\<close>

definition grid_window :: "fval list list \<Rightarrow> (nat \<times> nat) list \<Rightarrow> string + (fval \<times> bool) list" where
  "grid_window grid zone =
     (let on_grid = filter (\<lambda>(r, c). r < length grid \<and> c < length (grid ! r)) zone
      in case on_grid of
           [] \<Rightarrow> Inl ''Input shapes do not overlap raster.''
         | p # ps \<Rightarrow>
            (let r0 = fold min (map fst ps) (fst p); r1 = fold max (map fst ps) (fst p);
                 c0 = fold min (map snd ps) (snd p); c1 = fold max (map snd ps) (snd p)
             in Inr (concat (map (\<lambda>r. map (\<lambda>c. (grid ! r ! c, (r, c) \<in> set zone)) [c0 ..< Suc c1])
                                 [r0 ..< Suc r1]))))"

definition grid_raster :: "string \<Rightarrow> fval option \<Rightarrow> fval list list \<Rightarrow> (nat \<times> nat) list raster" where
  "grid_raster c nd grid = \<lparr>raster_crs = Some c, nodata = nd, read_window = grid_window grid\<rparr>"

definition zone :: "(string \<times> cell) list \<Rightarrow> 'g \<Rightarrow> 'g row" where
  "zone attrs geom = \<lparr>geometry = Some geom, cells = map_of attrs\<rparr>"

text \<open>
  A world with one raster under \<^verbatim>\<open>ndvi.tif\<close> and one zone source under
  \<^verbatim>\<open>fields.geojson\<close>; changing the CRS of a zone moves it one pixel column to the right.
\<close>

definition shift_right :: "string \<Rightarrow> string \<Rightarrow> (nat \<times> nat) list \<Rightarrow> (nat \<times> nat) list" where
  "shift_right a b geom = (if a = b then geom else map (\<lambda>(r, c). (r, Suc c)) geom)"

definition world_of ::
    "(nat \<times> nat) list raster contents \<Rightarrow> (nat \<times> nat) list geodataframe contents \<Rightarrow>
     (nat \<times> nat) list world" where
  "world_of r gdf =
     \<lparr>raster_files = (\<lambda>p. if p = ''ndvi.tif'' then Some r else None),
      vector_files = (\<lambda>p. if p = ''fields.geojson'' then Some gdf else None),
      transform = shift_right\<rparr>"

definition simple_world ::
    "(nat \<times> nat) list raster \<Rightarrow> (nat \<times> nat) list geodataframe \<Rightarrow> (nat \<times> nat) list world" where
  "simple_world r gdf = world_of (Readable r) (Readable gdf)"

text \<open>
  The 4 x 4 raster of value 1.0 with nodata -9999 in the top row, zone A on the top row and
  zone B on the three rows below.
\<close>

definition raster_4x4 :: "(nat \<times> nat) list raster" where
  "raster_4x4 = grid_raster ''EPSG:32634'' (Some (Finite (- 9999)))
     [replicate 4 (Finite (- 9999)), replicate 4 (Finite 1), replicate 4 (Finite 1),
      replicate 4 (Finite 1)]"

definition zones_A_B :: "(nat \<times> nat) list geodataframe" where
  "zones_A_B =
     \<lparr>gdf_crs = Some ''EPSG:32634'', columns = [''name''],
      rows = [zone [(''name'', StrCell ''A'')] [(0, 0), (0, 1), (0, 2), (0, 3)],
              zone [(''name'', StrCell ''B'')]
                [(1, 0), (1, 1), (1, 2), (1, 3), (2, 0), (2, 1), (2, 2), (2, 3),
                 (3, 0), (3, 1), (3, 2), (3, 3)]]\<rparr>"

text \<open>
  The same raster with a zone set of three zones, the second of which is degenerate: it
  covers no pixel, and the clip rejects it.
\<close>

definition zones_A_degenerate_B :: "(nat \<times> nat) list geodataframe" where
  "zones_A_degenerate_B =
     \<lparr>gdf_crs = Some ''EPSG:32634'', columns = [''name''],
      rows = [zone [(''name'', StrCell ''A'')] [(0, 0), (0, 1), (0, 2), (0, 3)],
              zone [(''name'', StrCell ''D'')] [],
              zone [(''name'', StrCell ''B'')]
                [(1, 0), (1, 1), (1, 2), (1, 3), (2, 0), (2, 1), (2, 2), (2, 3),
                 (3, 0), (3, 1), (3, 2), (3, 3)]]\<rparr>"

text \<open>
  The same three zones with the second given without geometry, and the 4 x 4 raster without
  CRS.
\<close>

definition zones_A_null_B :: "(nat \<times> nat) list geodataframe" where
  "zones_A_null_B =
     \<lparr>gdf_crs = Some ''EPSG:32634'', columns = [''name''],
      rows = [zone [(''name'', StrCell ''A'')] [(0, 0), (0, 1), (0, 2), (0, 3)],
              \<lparr>geometry = None, cells = map_of [(''name'', StrCell ''N'')]\<rparr>,
              zone [(''name'', StrCell ''B'')]
                [(1, 0), (1, 1), (1, 2), (1, 3), (2, 0), (2, 1), (2, 2), (2, 3),
                 (3, 0), (3, 1), (3, 2), (3, 3)]]\<rparr>"

definition raster_4x4_no_crs :: "(nat \<times> nat) list raster" where
  "raster_4x4_no_crs = raster_4x4\<lparr>raster_crs := None\<rparr>"

text \<open>A single zone on the two top rows of that raster: four nodata pixels, four valid ones.\<close>

definition zone_top_two_rows :: "(nat \<times> nat) list geodataframe" where
  "zone_top_two_rows =
     \<lparr>gdf_crs = Some ''EPSG:32634'', columns = [''name''],
      rows = [zone [(''name'', StrCell ''T'')]
                [(0, 0), (0, 1), (0, 2), (0, 3), (1, 0), (1, 1), (1, 2), (1, 3)]]\<rparr>"

text \<open>
  A 2 x 2 raster without nodata value and a triangular zone: its bounding window is the
  whole raster, and it does not cover the pixel in the upper right corner.
\<close>

definition raster_no_nodata :: "(nat \<times> nat) list raster" where
  "raster_no_nodata = grid_raster ''EPSG:32634'' None
     [[Finite (1 / 2), Finite (3 / 4)], [Finite (1 / 2), Finite (1 / 2)]]"

definition zone_triangle :: "(nat \<times> nat) list geodataframe" where
  "zone_triangle =
     \<lparr>gdf_crs = Some ''EPSG:32634'', columns = [''name''],
      rows = [zone [(''name'', StrCell ''triangle'')] [(0, 0), (1, 0), (1, 1)]]\<rparr>"

text \<open>
  Rasters of one row and a zone that covers the first three pixels of that row: a float64
  raster with the pixels \<open>2^24 + 1\<close> and \<open>2^128\<close>, a float32 raster with three equal
  pixels \<open>11184814 / 2^24\<close> (about 0.6667), and a float32 raster with two pixels \<open>2^127\<close>.
\<close>

definition raster_float64 :: "(nat \<times> nat) list raster" where
  "raster_float64 = grid_raster ''EPSG:32634'' None [[Finite 16777217, Finite (2 ^ 128)]]"

definition raster_two_thirds :: "(nat \<times> nat) list raster" where
  "raster_two_thirds = grid_raster ''EPSG:32634'' None
     [[Finite (11184814 / 16777216), Finite (11184814 / 16777216), Finite (11184814 / 16777216)]]"

definition raster_large :: "(nat \<times> nat) list raster" where
  "raster_large = grid_raster ''EPSG:32634'' None [[Finite (2 ^ 127), Finite (2 ^ 127)]]"

definition zone_first_row :: "(nat \<times> nat) list geodataframe" where
  "zone_first_row =
     \<lparr>gdf_crs = Some ''EPSG:32634'', columns = [''name''],
      rows = [zone [(''name'', StrCell ''row'')] [(0, 0), (0, 1), (0, 2)]]\<rparr>"

text \<open>
  Zones as \<^verbatim>\<open>04a_make_grid_over_ndvi.py\<close> writes them: an integer \<^verbatim>\<open>id\<close> and a name.
\<close>

definition zones_with_ids :: "(nat \<times> nat) list geodataframe" where
  "zones_with_ids =
     \<lparr>gdf_crs = Some ''EPSG:32634'', columns = [''id'', ''name''],
      rows = [zone [(''id'', IntCell 1), (''name'', StrCell ''Cell 1'')]
                [(0, 0), (0, 1), (0, 2), (0, 3)],
              zone [(''id'', IntCell 2), (''name'', StrCell ''Cell 2'')]
                [(1, 0), (1, 1), (1, 2), (1, 3)]]\<rparr>"

section \<open>The statistics of one clipped band\<close>

lemma valid_filter:
  "filter isfinite
     (case nd of
        None \<Rightarrow> map astype_float32 img
      | Some x \<Rightarrow> map (\<lambda>v. if float_eq v (astype_float32 x) then NaN else v)
                    (map astype_float32 img)) =
   map astype_float32 (filter (is_valid nd) img)"
proof (cases nd)
  case None
  have "filter isfinite (map astype_float32 img) = map astype_float32 (filter (is_valid None) img)"
    by (induction img) (simp_all add: is_valid_def)
  with None show ?thesis by simp
next
  case (Some x)
  have "filter isfinite (map (\<lambda>v. if float_eq v (astype_float32 x) then NaN else v)
          (map astype_float32 img)) = map astype_float32 (filter (is_valid (Some x)) img)"
    by (induction img) (simp_all add: is_valid_def)
  with Some show ?thesis by simp
qed

lemma zone_statistics_valid:
  "zone_statistics nd img =
     (if filter (is_valid nd) img = [] then (NaN, NaN, NaN, 0)
      else (np_mean (map astype_float32 (filter (is_valid nd) img)),
            np_min (map astype_float32 (filter (is_valid nd) img)),
            np_max (map astype_float32 (filter (is_valid nd) img)),
            int (length (filter (is_valid nd) img))))"
  by (simp add: zone_statistics_def Let_def valid_filter)

lemma fmin_finite: "isfinite a \<Longrightarrow> isfinite b \<Longrightarrow> fmin a b = (if float_le a b then a else b)"
  by (cases a; cases b) (simp_all add: fmin_def)

lemma fmax_finite: "isfinite a \<Longrightarrow> isfinite b \<Longrightarrow> fmax a b = (if float_le a b then b else a)"
  by (cases a; cases b) (simp_all add: fmax_def)

lemma float_le_total: "isfinite a \<Longrightarrow> isfinite b \<Longrightarrow> float_le a b \<or> float_le b a"
  by (cases a; cases b) auto

lemma float_le_trans: "float_le a b \<Longrightarrow> float_le b c \<Longrightarrow> float_le a c"
  by (cases a; cases b; cases c) auto

lemma float_le_refl: "isfinite a \<Longrightarrow> float_le a a"
  by (cases a) auto

lemma np_min_finite:
  assumes "xs \<noteq> []" and "\<forall>x \<in> set xs. isfinite x"
  shows "np_min xs \<in> set xs \<and> (\<forall>x \<in> set xs. float_le (np_min xs) x)"
  using assms
proof (induction xs rule: np_min.induct)
  case 1
  then show ?case by simp
next
  case (2 x)
  then show ?case by (simp add: float_le_refl)
next
  case (3 x y ys)
  define m where "m = np_min (y # ys)"
  from 3 have ih: "m \<in> set (y # ys)" "\<forall>z \<in> set (y # ys). float_le m z"
    unfolding m_def by simp_all
  from 3 ih(1) have fin: "isfinite x" "isfinite m" by auto
  have eq: "np_min (x # y # ys) = (if float_le x m then x else m)"
    using fin by (simp add: m_def fmin_finite)
  show ?case
  proof (cases "float_le x m")
    case True
    have "float_le x z" if "z \<in> set (x # y # ys)" for z
    proof (cases "z = x")
      case True
      then show ?thesis using fin by (simp add: float_le_refl)
    next
      case False
      with that have "z \<in> set (y # ys)" by simp
      with ih have "float_le m z" by blast
      with \<open>float_le x m\<close> show ?thesis by (rule float_le_trans)
    qed
    with True eq show ?thesis by simp
  next
    case False
    with fin float_le_total [of x m] have "float_le m x" by blast
    with ih have "float_le m z" if "z \<in> set (x # y # ys)" for z
      using that by auto
    moreover have "m \<in> set (x # y # ys)" using ih(1) by simp
    ultimately show ?thesis using False eq by simp
  qed
qed

lemma np_max_finite:
  assumes "xs \<noteq> []" and "\<forall>x \<in> set xs. isfinite x"
  shows "np_max xs \<in> set xs \<and> (\<forall>x \<in> set xs. float_le x (np_max xs))"
  using assms
proof (induction xs rule: np_max.induct)
  case 1
  then show ?case by simp
next
  case (2 x)
  then show ?case by (simp add: float_le_refl)
next
  case (3 x y ys)
  define m where "m = np_max (y # ys)"
  from 3 have ih: "m \<in> set (y # ys)" "\<forall>z \<in> set (y # ys). float_le z m"
    unfolding m_def by simp_all
  from 3 ih(1) have fin: "isfinite x" "isfinite m" by auto
  have eq: "np_max (x # y # ys) = (if float_le x m then m else x)"
    using fin by (simp add: m_def fmax_finite)
  show ?case
  proof (cases "float_le x m")
    case True
    with ih have "float_le z m" if "z \<in> set (x # y # ys)" for z
      using that by auto
    moreover have "m \<in> set (x # y # ys)" using ih(1) by simp
    ultimately show ?thesis using True eq by simp
  next
    case False
    with fin float_le_total [of x m] have mx: "float_le m x" by blast
    have "float_le z x" if "z \<in> set (x # y # ys)" for z
    proof (cases "z = x")
      case True
      then show ?thesis using fin by (simp add: float_le_refl)
    next
      case False
      with that have "z \<in> set (y # ys)" by simp
      with ih have "float_le z m" by blast
      then show ?thesis using mx by (rule float_le_trans)
    qed
    with False eq show ?thesis by simp
  qed
qed

lemma astype_valid_finite: "\<forall>x \<in> set (map astype_float32 (filter (is_valid nd) img)). isfinite x"
  by (simp add: is_valid_def)

lemma zone_statistics_consistent:
  assumes "zone_statistics nd img = (m, mn, mx, c)"
  shows "0 \<le> c \<and> c \<le> int (length img) \<and> (c = 0 \<longleftrightarrow> m = NaN \<and> mn = NaN \<and> mx = NaN) \<and>
         (0 < c \<longrightarrow> isfinite mn \<and> isfinite mx \<and> float_le mn mx)"
proof (cases "filter (is_valid nd) img = []")
  case True
  with assms show ?thesis by (simp add: zone_statistics_valid)
next
  case False
  define valid where "valid = map astype_float32 (filter (is_valid nd) img)"
  have ne: "valid \<noteq> []" using False by (simp add: valid_def)
  have fin: "\<forall>x \<in> set valid. isfinite x" unfolding valid_def by (rule astype_valid_finite)
  from np_min_finite [OF ne fin] have mn: "np_min valid \<in> set valid"
      "\<forall>x \<in> set valid. float_le (np_min valid) x" by simp_all
  from np_max_finite [OF ne fin] have mx: "np_max valid \<in> set valid"
      "\<forall>x \<in> set valid. float_le x (np_max valid)" by simp_all
  from assms False have vals: "mn = np_min valid" "mx = np_max valid"
      "c = int (length (filter (is_valid nd) img))"
    by (simp_all add: zone_statistics_valid valid_def)
  have "isfinite mn" "isfinite mx" using mn(1) mx(1) fin vals by auto
  moreover have "float_le mn mx" using mn(2) mx(1) vals by auto
  moreover have "0 < c" using False vals by simp
  moreover have "c \<le> int (length img)" using vals by simp
  moreover have "mn \<noteq> NaN" using \<open>isfinite mn\<close> by auto
  ultimately show ?thesis by simp
qed





section \<open>The loop and the assembly of the result\<close>

lemma zonal_loop_all_geometries:
  assumes "\<forall>r \<in> set rs. geometry r \<noteq> None"
  shows "zonal_loop src st (enumerate k rs) =
     (st\<lparr>means := means st @ map (\<lambda>r. fst (zone_outcome src (the (geometry r)))) rs,
         mins := mins st @ map (\<lambda>r. fst (snd (zone_outcome src (the (geometry r))))) rs,
         maxs := maxs st @ map (\<lambda>r. fst (snd (snd (zone_outcome src (the (geometry r)))))) rs,
         counts := counts st @ map (\<lambda>r. snd (snd (snd (zone_outcome src (the (geometry r)))))) rs,
         logged := logged st @
           concat (map (\<lambda>(i, r). zone_warnings src i (the (geometry r))) (enumerate k rs))\<rparr>,
      None)"
  using assms
proof (induction rs arbitrary: st k)
  case Nil
  show ?case by simp
next
  case (Cons r rs)
  then obtain g where g: "geometry r = Some g" by auto
  from Cons.prems have rest: "\<forall>r \<in> set rs. geometry r \<noteq> None" by simp
  show ?case
    by (simp add: g Cons.IH [OF rest])
       (simp add: loop_body_def zone_outcome_def zone_warnings_def split: sum.splits prod.splits)
qed

lemma set_column_ok:
  assumes "length vals = length (rows gdf)"
  shows "\<exists>g. set_column name vals gdf = Inr g \<and> gdf_crs g = gdf_crs gdf \<and>
           length (rows g) = length (rows gdf) \<and>
           set (columns g) = insert name (set (columns gdf)) \<and>
           (\<forall>i < length (rows gdf).
              geometry (rows g ! i) = geometry (rows gdf ! i) \<and>
              cells (rows g ! i) = (cells (rows gdf ! i))(name \<mapsto> vals ! i))"
  using assms by (auto simp add: set_column_def)

lemma to_crs_ok:
  "to_crs w (Some tgt) (if gdf_crs gdf = None then set_crs ''EPSG:4326'' gdf else gdf) =
     Inr (gdf\<lparr>gdf_crs := Some tgt,
              rows := map (\<lambda>r. r\<lparr>geometry := map_option (transform w (source_crs gdf) tgt) (geometry r)\<rparr>)
                        (rows gdf)\<rparr>)"
  by (simp add: to_crs_def set_crs_def source_crs_def split: option.splits)

lemma add_columns_ok:
  assumes len: "length (rows gdf) = n"
    and st: "length (means st) = n" "length (mins st) = n" "length (maxs st) = n"
            "length (counts st) = n"
  shows "\<exists>out. add_columns st gdf = Inr out \<and> gdf_crs out = gdf_crs gdf \<and>
           length (rows out) = n \<and>
           (\<forall>i < n.
              geometry (rows out ! i) = geometry (rows gdf ! i) \<and>
              cells (rows out ! i) =
                (if ''id'' \<in> set (columns gdf) then cells (rows gdf ! i)
                 else (cells (rows gdf ! i))(''id'' \<mapsto> StrCell (string_of_nat i)))
                (''ndvi_mean'' \<mapsto> FloatCell (means st ! i),
                 ''ndvi_min'' \<mapsto> FloatCell (mins st ! i),
                 ''ndvi_max'' \<mapsto> FloatCell (maxs st ! i),
                 ''ndvi_count'' \<mapsto> IntCell (counts st ! i)))"
proof -
  define ids where "ids = map (\<lambda>i. StrCell (string_of_nat i)) [0 ..< length (rows gdf)]"
  define step0 where "step0 = (if ''id'' \<notin> set (columns gdf) then set_column ''id'' ids gdf else Inr gdf)"
  have "\<exists>g0. step0 = Inr g0 \<and> gdf_crs g0 = gdf_crs gdf \<and> length (rows g0) = n \<and>
          (\<forall>i < n. geometry (rows g0 ! i) = geometry (rows gdf ! i) \<and>
             cells (rows g0 ! i) =
               (if ''id'' \<in> set (columns gdf) then cells (rows gdf ! i)
                else (cells (rows gdf ! i))(''id'' \<mapsto> StrCell (string_of_nat i))))"
  proof (cases "''id'' \<in> set (columns gdf)")
    case True
    then show ?thesis using len by (simp add: step0_def)
  next
    case False
    have "length ids = length (rows gdf)" by (simp add: ids_def)
    from set_column_ok [OF this, of "''id''"] False len show ?thesis
      by (auto simp add: step0_def ids_def)
  qed
  then obtain g0 where g0: "step0 = Inr g0" "gdf_crs g0 = gdf_crs gdf" "length (rows g0) = n"
      "\<forall>i < n. geometry (rows g0 ! i) = geometry (rows gdf ! i) \<and>
             cells (rows g0 ! i) =
               (if ''id'' \<in> set (columns gdf) then cells (rows gdf ! i)
                else (cells (rows gdf ! i))(''id'' \<mapsto> StrCell (string_of_nat i)))"
    by blast
  have "length (map FloatCell (means st)) = length (rows g0)" using g0 st by simp
  from set_column_ok [OF this, of "''ndvi_mean''"]
  obtain g1 where g1: "set_column ''ndvi_mean'' (map FloatCell (means st)) g0 = Inr g1"
      "gdf_crs g1 = gdf_crs g0" "length (rows g1) = length (rows g0)"
      "\<forall>i < length (rows g0). geometry (rows g1 ! i) = geometry (rows g0 ! i) \<and>
          cells (rows g1 ! i) = (cells (rows g0 ! i))(''ndvi_mean'' \<mapsto> map FloatCell (means st) ! i)"
    by blast
  have "length (map FloatCell (mins st)) = length (rows g1)" using g0 g1 st by simp
  from set_column_ok [OF this, of "''ndvi_min''"]
  obtain g2 where g2: "set_column ''ndvi_min'' (map FloatCell (mins st)) g1 = Inr g2"
      "gdf_crs g2 = gdf_crs g1" "length (rows g2) = length (rows g1)"
      "\<forall>i < length (rows g1). geometry (rows g2 ! i) = geometry (rows g1 ! i) \<and>
          cells (rows g2 ! i) = (cells (rows g1 ! i))(''ndvi_min'' \<mapsto> map FloatCell (mins st) ! i)"
    by blast
  have "length (map FloatCell (maxs st)) = length (rows g2)" using g0 g1 g2 st by simp
  from set_column_ok [OF this, of "''ndvi_max''"]
  obtain g3 where g3: "set_column ''ndvi_max'' (map FloatCell (maxs st)) g2 = Inr g3"
      "gdf_crs g3 = gdf_crs g2" "length (rows g3) = length (rows g2)"
      "\<forall>i < length (rows g2). geometry (rows g3 ! i) = geometry (rows g2 ! i) \<and>
          cells (rows g3 ! i) = (cells (rows g2 ! i))(''ndvi_max'' \<mapsto> map FloatCell (maxs st) ! i)"
    by blast
  have "length (map IntCell (counts st)) = length (rows g3)" using g0 g1 g2 g3 st by simp
  from set_column_ok [OF this, of "''ndvi_count''"]
  obtain g4 where g4: "set_column ''ndvi_count'' (map IntCell (counts st)) g3 = Inr g4"
      "gdf_crs g4 = gdf_crs g3" "length (rows g4) = length (rows g3)"
      "\<forall>i < length (rows g3). geometry (rows g4 ! i) = geometry (rows g3 ! i) \<and>
          cells (rows g4 ! i) = (cells (rows g3 ! i))(''ndvi_count'' \<mapsto> map IntCell (counts st) ! i)"
    by blast
  have "add_columns st gdf =
          and_then step0
            (\<lambda>gdf. and_then (set_column ''ndvi_mean'' (map FloatCell (means st)) gdf)
            (\<lambda>gdf. and_then (set_column ''ndvi_min'' (map FloatCell (mins st)) gdf)
            (\<lambda>gdf. and_then (set_column ''ndvi_max'' (map FloatCell (maxs st)) gdf)
            (\<lambda>gdf. set_column ''ndvi_count'' (map IntCell (counts st)) gdf))))"
    by (simp add: add_columns_def step0_def ids_def)
  then have run: "add_columns st gdf = Inr g4"
    by (simp add: and_then_def g0(1) g1(1) g2(1) g3(1) g4(1))
  have lens: "length (rows g1) = n" "length (rows g2) = n" "length (rows g3) = n"
      "length (rows g4) = n"
    using g0(3) g1(3) g2(3) g3(3) g4(3) by simp_all
  have "\<forall>i < n.
          geometry (rows g4 ! i) = geometry (rows gdf ! i) \<and>
          cells (rows g4 ! i) =
            (if ''id'' \<in> set (columns gdf) then cells (rows gdf ! i)
             else (cells (rows gdf ! i))(''id'' \<mapsto> StrCell (string_of_nat i)))
            (''ndvi_mean'' \<mapsto> FloatCell (means st ! i),
             ''ndvi_min'' \<mapsto> FloatCell (mins st ! i),
             ''ndvi_max'' \<mapsto> FloatCell (maxs st ! i),
             ''ndvi_count'' \<mapsto> IntCell (counts st ! i))"
  proof (intro allI impI)
    fix i assume i: "i < n"
    from i g0(4) have a0: "geometry (rows g0 ! i) = geometry (rows gdf ! i)"
        "cells (rows g0 ! i) =
               (if ''id'' \<in> set (columns gdf) then cells (rows gdf ! i)
                else (cells (rows gdf ! i))(''id'' \<mapsto> StrCell (string_of_nat i)))"
      by simp_all
    from i g1(4) g0(3) st have a1: "geometry (rows g1 ! i) = geometry (rows g0 ! i)"
        "cells (rows g1 ! i) = (cells (rows g0 ! i))(''ndvi_mean'' \<mapsto> FloatCell (means st ! i))"
      by simp_all
    from i g2(4) lens st have a2: "geometry (rows g2 ! i) = geometry (rows g1 ! i)"
        "cells (rows g2 ! i) = (cells (rows g1 ! i))(''ndvi_min'' \<mapsto> FloatCell (mins st ! i))"
      by simp_all
    from i g3(4) lens st have a3: "geometry (rows g3 ! i) = geometry (rows g2 ! i)"
        "cells (rows g3 ! i) = (cells (rows g2 ! i))(''ndvi_max'' \<mapsto> FloatCell (maxs st ! i))"
      by simp_all
    from i g4(4) lens st have a4: "geometry (rows g4 ! i) = geometry (rows g3 ! i)"
        "cells (rows g4 ! i) = (cells (rows g3 ! i))(''ndvi_count'' \<mapsto> IntCell (counts st ! i))"
      by simp_all
    show "geometry (rows g4 ! i) = geometry (rows gdf ! i) \<and>
          cells (rows g4 ! i) =
            (if ''id'' \<in> set (columns gdf) then cells (rows gdf ! i)
             else (cells (rows gdf ! i))(''id'' \<mapsto> StrCell (string_of_nat i)))
            (''ndvi_mean'' \<mapsto> FloatCell (means st ! i),
             ''ndvi_min'' \<mapsto> FloatCell (mins st ! i),
             ''ndvi_max'' \<mapsto> FloatCell (maxs st ! i),
             ''ndvi_count'' \<mapsto> IntCell (counts st ! i))"
      unfolding a4 a3 a2 a1 a0 by simp
  qed
  with run lens g0(2) g1(2) g2(2) g3(2) g4(2) show ?thesis by simp
qed

lemma compute_zonal_mean_ok:
  assumes "raster_files w rp = Some (Readable src)" and "vector_files w vp = Some (Readable zones)"
    and "rows zones \<noteq> []" and "raster_crs src \<noteq> None" and "has_geometries zones"
  shows "\<exists>out. compute_zonal_mean w rp vp =
           (loading_log src rp vp @
              concat (map (\<lambda>i. zone_warnings src i (reprojected w src zones i))
                        [0 ..< length (rows zones)]),
            Inr out) \<and>
          gdf_crs out = raster_crs src \<and>
          length (rows out) = length (rows zones) \<and>
          (\<forall>i < length (rows zones).
             geometry (rows out ! i) = Some (reprojected w src zones i) \<and>
             cells (rows out ! i) =
               result_cells zones i (zone_outcome src (reprojected w src zones i)))"
proof -
  from assms(4) obtain tgt where tgt: "raster_crs src = Some tgt" by auto
  from assms(5) have geo_all: "\<forall>r \<in> set (rows zones). geometry r \<noteq> None"
    by (simp add: has_geometries_def list_all_iff)
  define gdf where "gdf = zones\<lparr>gdf_crs := Some tgt,
      rows := map (\<lambda>r. r\<lparr>geometry := map_option (transform w (source_crs zones) tgt) (geometry r)\<rparr>)
                (rows zones)\<rparr>"
  define lg where "lg = [INFO (''Loading raster: '' @ rp), INFO (''Loading polygons: '' @ vp)] @
      [INFO (''Reprojected vector to raster CRS: '' @ the (raster_crs src))]"
  define st0 where "st0 = \<lparr>means = [], mins = [], maxs = [], counts = [], logged = lg\<rparr>"
  have n: "length (rows gdf) = length (rows zones)" by (simp add: gdf_def)
  have geo: "geometry (rows gdf ! i) = Some (reprojected w src zones i)"
      "cells (rows gdf ! i) = cells (rows zones ! i)" if "i < length (rows zones)" for i
  proof -
    from that geo_all obtain g where "geometry (rows zones ! i) = Some g"
      by (metis not_Some_eq nth_mem)
    with that show "geometry (rows gdf ! i) = Some (reprojected w src zones i)"
      by (simp add: gdf_def reprojected_def tgt)
    from that show "cells (rows gdf ! i) = cells (rows zones ! i)"
      by (simp add: gdf_def)
  qed
  have geo_gdf: "\<forall>r \<in> set (rows gdf). geometry r \<noteq> None"
    using geo_all by (auto simp add: gdf_def)
  have cols: "columns gdf = columns zones" by (simp add: gdf_def)
  note loop = zonal_loop_all_geometries [OF geo_gdf, of src st0 0]
  define st where "st = fst (zonal_loop src st0 (enumerate 0 (rows gdf)))"
  have loop': "zonal_loop src st0 (enumerate 0 (rows gdf)) = (st, None)"
    unfolding st_def loop by simp
  have run: "compute_zonal_mean w rp vp = (logged st, add_columns st gdf)"
    using assms(1,2,3) loop'
    by (simp add: compute_zonal_mean_def tgt to_crs_ok st0_def lg_def gdf_def Let_def)
  have fields:
      "means st = map (\<lambda>r. fst (zone_outcome src (the (geometry r)))) (rows gdf)"
      "mins st = map (\<lambda>r. fst (snd (zone_outcome src (the (geometry r))))) (rows gdf)"
      "maxs st = map (\<lambda>r. fst (snd (snd (zone_outcome src (the (geometry r)))))) (rows gdf)"
      "counts st = map (\<lambda>r. snd (snd (snd (zone_outcome src (the (geometry r)))))) (rows gdf)"
      "logged st = lg @
         concat (map (\<lambda>(i, r). zone_warnings src i (the (geometry r))) (enumerate 0 (rows gdf)))"
    unfolding st_def loop by (simp_all add: st0_def)
  have lens: "length (means st) = length (rows zones)" "length (mins st) = length (rows zones)"
      "length (maxs st) = length (rows zones)" "length (counts st) = length (rows zones)"
    by (simp_all add: fields n)
  from add_columns_ok [OF n lens]
  obtain out where out: "add_columns st gdf = Inr out" "gdf_crs out = gdf_crs gdf"
      "length (rows out) = length (rows zones)"
      "\<forall>i < length (rows zones).
              geometry (rows out ! i) = geometry (rows gdf ! i) \<and>
              cells (rows out ! i) =
                (if ''id'' \<in> set (columns gdf) then cells (rows gdf ! i)
                 else (cells (rows gdf ! i))(''id'' \<mapsto> StrCell (string_of_nat i)))
                (''ndvi_mean'' \<mapsto> FloatCell (means st ! i),
                 ''ndvi_min'' \<mapsto> FloatCell (mins st ! i),
                 ''ndvi_max'' \<mapsto> FloatCell (maxs st ! i),
                 ''ndvi_count'' \<mapsto> IntCell (counts st ! i))"
    by blast
  have warn: "map (\<lambda>(i, r). zone_warnings src i (the (geometry r))) (enumerate 0 (rows gdf)) =
      map (\<lambda>i. zone_warnings src i (reprojected w src zones i)) [0 ..< length (rows zones)]"
    using geo(1) n by (intro nth_equalityI) (simp_all add: nth_enumerate_eq)
  have lg: "logged st = loading_log src rp vp @
              concat (map (\<lambda>i. zone_warnings src i (reprojected w src zones i))
                        [0 ..< length (rows zones)])"
    by (simp add: fields warn loading_log_def lg_def)
  have "geometry (rows out ! i) = Some (reprojected w src zones i) \<and>
        cells (rows out ! i) = result_cells zones i (zone_outcome src (reprojected w src zones i))"
    if i: "i < length (rows zones)" for i
  proof -
    have vals: "means st ! i = fst (zone_outcome src (reprojected w src zones i))"
        "mins st ! i = fst (snd (zone_outcome src (reprojected w src zones i)))"
        "maxs st ! i = fst (snd (snd (zone_outcome src (reprojected w src zones i))))"
        "counts st ! i = snd (snd (snd (zone_outcome src (reprojected w src zones i))))"
      using i n by (simp_all add: fields geo)
    from out(4) i show ?thesis
      by (simp add: vals geo cols result_cells_def split: prod.splits)
  qed
  with run out lg show ?thesis by (simp add: gdf_def tgt)
qed

lemma statistics_of_cells:
  "cells r = result_cells zones i t \<Longrightarrow> statistics_of r = Some t"
  by (cases t) (simp add: statistics_of_def result_cells_def)

lemma result_cells_other:
  "c \<notin> {''id'', ''ndvi_mean'', ''ndvi_min'', ''ndvi_max'', ''ndvi_count''} \<Longrightarrow>
   result_cells zones i t c = cells (rows zones ! i) c"
  by (cases t) (simp add: result_cells_def)

lemma raised_returned:
  "raised res = None \<longleftrightarrow> returned res \<noteq> None"
  by (simp add: raised_def returned_def split: sum.splits)

lemma single_zone_run:
  assumes "raster_files w rp = Some (Readable src)" and "vector_files w vp = Some (Readable zones)"
    and "j < length (rows zones)" and "raster_crs src \<noteq> None" and "has_geometries zones"
  shows "\<exists>lg1 out1. compute_zonal_mean (with_zones w vp (single_zone zones j)) rp vp = (lg1, Inr out1) \<and>
           length (rows out1) = 1 \<and>
           geometry (rows out1 ! 0) = Some (reprojected w src zones j) \<and>
           (\<forall>c. c \<noteq> ''id'' \<or> ''id'' \<in> set (columns zones) \<longrightarrow>
              cells (rows out1 ! 0) c =
                result_cells zones j (zone_outcome src (reprojected w src zones j)) c) \<and>
           statistics_of (rows out1 ! 0) = Some (zone_outcome src (reprojected w src zones j))"
proof -
  let ?w = "with_zones w vp (single_zone zones j)"
  have r: "raster_files ?w rp = Some (Readable src)" using assms(1) by (simp add: with_zones_def)
  have v: "vector_files ?w vp = Some (Readable (single_zone zones j))" by (simp add: with_zones_def)
  have ne: "rows (single_zone zones j) \<noteq> []" by (simp add: single_zone_def)
  have hg: "has_geometries (single_zone zones j)"
    using assms(3,5) by (simp add: has_geometries_def single_zone_def list_all_length)
  have g: "reprojected ?w src (single_zone zones j) 0 = reprojected w src zones j"
    by (simp add: reprojected_def with_zones_def single_zone_def source_crs_def)
  have c: "result_cells (single_zone zones j) 0 t c = result_cells zones j t c"
    if "c \<noteq> ''id'' \<or> ''id'' \<in> set (columns zones)" for t c
    using that by (cases t) (auto simp add: result_cells_def single_zone_def)
  from compute_zonal_mean_ok [OF r v ne assms(4) hg] obtain out1 lg1 where o:
    "compute_zonal_mean ?w rp vp = (lg1, Inr out1)" "length (rows out1) = 1"
    "geometry (rows out1 ! 0) = Some (reprojected ?w src (single_zone zones j) 0)"
    "cells (rows out1 ! 0) =
       result_cells (single_zone zones j) 0 (zone_outcome src (reprojected ?w src (single_zone zones j) 0))"
    by (auto simp add: single_zone_def)
  have "statistics_of (rows out1 ! 0) = Some (zone_outcome src (reprojected w src zones j))"
    using o(4) by (simp add: g statistics_of_cells)
  moreover have "\<forall>c. c \<noteq> ''id'' \<or> ''id'' \<in> set (columns zones) \<longrightarrow>
      cells (rows out1 ! 0) c =
        result_cells zones j (zone_outcome src (reprojected w src zones j)) c"
    using c by (simp add: o(4) g)
  ultimately show ?thesis using o(1,2,3) by (simp add: g)
qed

text \<open>
  A call returns a frame only when both files can be read, the zone source has a feature,
  the raster has a CRS and every feature has a geometry: these are the hypotheses of
  \<open>compute_zonal_mean_ok\<close>, so that lemma describes every frame that is returned.
\<close>

lemma zonal_loop_no_error:
  "zonal_loop src st xs = (st', None) \<Longrightarrow> list_all (\<lambda>r. geometry r \<noteq> None) (map snd xs)"
proof (induction xs arbitrary: st)
  case Nil
  show ?case by simp
next
  case (Cons x xs)
  obtain idx row where x: "x = (idx, row)" by (cases x)
  show ?case
  proof (cases "geometry row")
    case None
    with Cons.prems x show ?thesis by simp
  next
    case (Some geom)
    with Cons.prems x have "zonal_loop src (loop_body src st idx geom) xs = (st', None)" by simp
    from Cons.IH [OF this] Some x show ?thesis by simp
  qed
qed

lemma returned_only_if:
  assumes "returned (compute_zonal_mean w rp vp) = Some out"
  shows "\<exists>src zones. raster_files w rp = Some (Readable src) \<and>
           vector_files w vp = Some (Readable zones) \<and> rows zones \<noteq> [] \<and>
           raster_crs src \<noteq> None \<and> has_geometries zones"
proof -
  from assms obtain rf where rf: "raster_files w rp = Some rf"
    by (cases "raster_files w rp") (simp_all add: compute_zonal_mean_def returned_def)
  from assms rf obtain vf where vf: "vector_files w vp = Some vf"
    by (cases "vector_files w vp") (simp_all add: compute_zonal_mean_def returned_def)
  from assms rf vf obtain src where src: "rf = Readable src"
    by (cases rf) (simp_all add: compute_zonal_mean_def returned_def)
  from assms rf vf src obtain zones where zones: "vf = Readable zones"
    by (cases vf) (simp_all add: compute_zonal_mean_def returned_def)
  from assms rf vf src zones have ne: "rows zones \<noteq> []"
    by (auto simp add: compute_zonal_mean_def returned_def)
  let ?g0 = "if gdf_crs zones = None then set_crs ''EPSG:4326'' zones else zones"
  from assms rf vf src zones ne obtain gdf where gdf: "to_crs w (raster_crs src) ?g0 = Inr gdf"
    by (cases "to_crs w (raster_crs src) ?g0")
       (simp_all add: compute_zonal_mean_def returned_def)
  then have crs: "raster_crs src \<noteq> None"
    by (auto simp add: to_crs_def split: option.splits)
  from gdf have geo: "map (\<lambda>r. geometry r \<noteq> None) (rows gdf) = map (\<lambda>r. geometry r \<noteq> None) (rows zones)"
    by (auto simp add: to_crs_def set_crs_def split: option.splits if_splits)
  let ?st0 = "\<lparr>means = [], mins = [], maxs = [], counts = [],
               logged = [INFO (''Loading raster: '' @ rp), INFO (''Loading polygons: '' @ vp)] @
                        [INFO (''Reprojected vector to raster CRS: '' @ the (raster_crs src))]\<rparr>"
  obtain st err where lp: "zonal_loop src ?st0 (enumerate 0 (rows gdf)) = (st, err)"
    by (cases "zonal_loop src ?st0 (enumerate 0 (rows gdf))")
  from assms rf vf src zones ne gdf lp have "err = None"
    by (cases err) (simp_all add: compute_zonal_mean_def returned_def)
  with lp have "list_all (\<lambda>r. geometry r \<noteq> None) (map snd (enumerate 0 (rows gdf)))"
    using zonal_loop_no_error by blast
  then have "list_all (\<lambda>r. geometry r \<noteq> None) (rows gdf)"
    by (simp add: map_snd_enumerate)
  then have "\<forall>i < length (rows gdf). geometry (rows gdf ! i) \<noteq> None"
    by (simp add: list_all_length)
  moreover from geo have "length (rows gdf) = length (rows zones)"
    by (rule map_eq_imp_length_eq)
  moreover from geo have "\<forall>i < length (rows zones). (geometry (rows gdf ! i) \<noteq> None) = (geometry (rows zones ! i) \<noteq> None)"
    by (metis (mono_tags, lifting) length_map nth_map)
  ultimately have "has_geometries zones"
    by (simp add: has_geometries_def list_all_length)
  with rf vf src zones ne crs show ?thesis by simp
qed

section \<open>The concrete rasters and zones, evaluated\<close>

lemma string_of_nat_digit: "n < 10 \<Longrightarrow> string_of_nat n = [digit n]"
  by (simp add: string_of_nat.simps)

lemma fixture_files:
  "raster_files (simple_world r gdf) ''ndvi.tif'' = Some (Readable r)"
  "vector_files (simple_world r gdf) ''fields.geojson'' = Some (Readable gdf)"
  by (simp_all add: simple_world_def world_of_def)

lemma fixture_crs:
  "raster_crs (grid_raster c nd grid) \<noteq> None"
  "raster_crs raster_4x4 = Some ''EPSG:32634''"
  "raster_crs raster_no_nodata = Some ''EPSG:32634''"
  "raster_crs raster_float64 = Some ''EPSG:32634''"
  by (simp_all add: grid_raster_def raster_4x4_def raster_no_nodata_def raster_float64_def)

lemma fixture_zone_crs:
  "gdf_crs zones_A_B = Some ''EPSG:32634''"
  "gdf_crs zones_A_degenerate_B = Some ''EPSG:32634''"
  "gdf_crs zone_top_two_rows = Some ''EPSG:32634''"
  "gdf_crs zone_first_row = Some ''EPSG:32634''"
  by (simp_all add: zones_A_B_def zones_A_degenerate_B_def zone_top_two_rows_def
        zone_first_row_def)

lemma fixture_geometries:
  "has_geometries zones_A_B"
  "has_geometries (zones_A_B\<lparr>gdf_crs := None\<rparr>)"
  "has_geometries zones_A_degenerate_B"
  "has_geometries zone_top_two_rows"
  "has_geometries zone_first_row"
  "has_geometries zones_with_ids"
  by (simp_all add: has_geometries_def zones_A_B_def zones_A_degenerate_B_def
        zone_top_two_rows_def zone_first_row_def zones_with_ids_def zone_def)

lemma reprojected_same_crs:
  "gdf_crs gdf = Some c \<Longrightarrow> raster_crs r = Some c \<Longrightarrow>
   reprojected (simple_world r gdf) r gdf i = the (geometry (rows gdf ! i))"
  by (simp add: reprojected_def simple_world_def world_of_def source_crs_def shift_right_def)

lemma mask_empty_zone: "mask (grid_raster c nd grid) [] = Inl ''Input shapes do not overlap raster.''"
  by (simp add: mask_def grid_raster_def grid_window_def)



lemma window_4x4_B:
  "read_window raster_4x4
     [(1, 0), (1, 1), (1, 2), (1, 3), (2, 0), (2, 1), (2, 2), (2, 3),
      (3, 0), (3, 1), (3, 2), (3, 3)] = Inr (replicate 12 (Finite 1, True))"
  by code_simp

lemma mask_4x4_B:
  "mask raster_4x4
     [(1, 0), (1, 1), (1, 2), (1, 3), (2, 0), (2, 1), (2, 2), (2, 3),
      (3, 0), (3, 1), (3, 2), (3, 3)] = Inr (replicate 12 (Finite 1))"
  unfolding mask_def window_4x4_B by simp

lemma zone_outcome_4x4_B:
  "zone_outcome raster_4x4
     [(1, 0), (1, 1), (1, 2), (1, 3), (2, 0), (2, 1), (2, 2), (2, 3),
      (3, 0), (3, 1), (3, 2), (3, 3)] = (Finite 1, Finite 1, Finite 1, 12)"
  by code_simp



lemma window_triangle:
  "read_window raster_no_nodata [(0, 0), (1, 0), (1, 1)] =
     Inr [(Finite (1 / 2), True), (Finite (3 / 4), False), (Finite (1 / 2), True),
          (Finite (1 / 2), True)]"
  by code_simp

lemma statistics_triangle:
  "map_option statistics
     (returned (compute_zonal_mean (simple_world raster_no_nodata zone_triangle) ''ndvi.tif'' ''fields.geojson'')) =
   Some [Some (Finite (3 / 8), Finite 0, Finite (1 / 2), 4)]"
  by code_simp

lemma ids_supplied:
  "map_option (column_values ''id'')
     (returned (compute_zonal_mean (simple_world raster_4x4 zones_with_ids) ''ndvi.tif'' ''fields.geojson'')) =
   Some [Some (IntCell 1), Some (IntCell 2)]"
  by code_simp

lemma f64_values: "float64 16777217 = Finite 16777217" "float64 (2 ^ 128) = Finite (2 ^ 128)"
  by code_simp+

lemma mask_float64:
  "mask raster_float64 [(0, 0), (0, 1), (0, 2)] = Inr [Finite 16777217, Finite (2 ^ 128)]"
  by code_simp

lemma valid_float64:
  "(let valid = map astype_float32 (filter (is_valid None) [Finite 16777217, Finite (2 ^ 128)])
    in if valid = [] then (NaN, NaN, NaN, 0)
       else (np_mean valid, np_min valid, np_max valid, int (length valid))) =
   (Finite 16777216, Finite 16777216, Finite 16777216, 1)"
  by code_simp

lemma statistics_float64:
  "map_option statistics
     (returned (compute_zonal_mean (simple_world raster_float64 zone_first_row) ''ndvi.tif'' ''fields.geojson'')) =
   Some [Some (Finite 16777216, Finite 16777216, Finite 16777216, 1)]"
  by code_simp

lemma statistics_two_thirds:
  "map_option statistics
     (returned (compute_zonal_mean (simple_world raster_two_thirds zone_first_row) ''ndvi.tif'' ''fields.geojson'')) =
   Some [Some (Finite (11184813 / 16777216), Finite (11184814 / 16777216), Finite (11184814 / 16777216), 3)]"
  by code_simp

lemma statistics_large:
  "map_option statistics
     (returned (compute_zonal_mean (simple_world raster_large zone_first_row) ''ndvi.tif'' ''fields.geojson'')) =
   Some [Some (PosInf, Finite (2 ^ 127), Finite (2 ^ 127), 2)]"
  by code_simp

text \<open>
  Runs that end in an exception: a feature without geometry, a raster without CRS and a
  raster file that cannot be opened. The identifiers of a run on three zones and of the run
  on the last of them alone.
\<close>

lemma run_without_geometry:
  "raised (compute_zonal_mean (simple_world raster_4x4 zones_A_null_B) ''ndvi.tif'' ''fields.geojson'') =
     Some (AttributeError ''NoneType object has no attribute __geo_interface__'')"
  "fst (compute_zonal_mean (simple_world raster_4x4 zones_A_null_B) ''ndvi.tif'' ''fields.geojson'') =
     [INFO ''Loading raster: ndvi.tif'', INFO ''Loading polygons: fields.geojson'',
      INFO ''Reprojected vector to raster CRS: EPSG:32634'']"
  by code_simp+

lemma run_without_crs:
  "raised (compute_zonal_mean (simple_world raster_4x4_no_crs zones_A_B) ''ndvi.tif'' ''fields.geojson'') =
     Some (ValueError ''Must pass either crs or epsg.'')"
  "fst (compute_zonal_mean (simple_world raster_4x4_no_crs zones_A_B) ''ndvi.tif'' ''fields.geojson'') =
     [INFO ''Loading raster: ndvi.tif'', INFO ''Loading polygons: fields.geojson'']"
  by code_simp+

lemma run_unreadable_raster:
  "raised (compute_zonal_mean (world_of (Unreadable ''not recognized as a supported file format'')
       (Readable zones_A_B)) ''ndvi.tif'' ''fields.geojson'') =
     Some (RasterioIOError ''not recognized as a supported file format'')"
  "fst (compute_zonal_mean (world_of (Unreadable ''not recognized as a supported file format'')
       (Readable zones_A_B)) ''ndvi.tif'' ''fields.geojson'') =
     [INFO ''Loading raster: ndvi.tif'']"
  by code_simp+

lemma ids_full_run:
  "map_option (column_values ''id'')
     (returned (compute_zonal_mean (simple_world raster_4x4 zones_A_degenerate_B)
                  ''ndvi.tif'' ''fields.geojson'')) =
   Some [Some (StrCell ''0''), Some (StrCell ''1''), Some (StrCell ''2'')]"
  by code_simp

lemma ids_standalone_run:
  "map_option (column_values ''id'')
     (returned (compute_zonal_mean
                  (with_zones (simple_world raster_4x4 zones_A_degenerate_B) ''fields.geojson''
                     (single_zone zones_A_degenerate_B 2))
                  ''ndvi.tif'' ''fields.geojson'')) =
   Some [Some (StrCell ''0'')]"
  by code_simp

section \<open>Cardinality and order\<close>

text \<open>
  Claim C1, as stated, fails for a zone set that is non-empty and readable, with a raster
  that exists, in two cases. A feature without geometry (a GeoJSON feature whose geometry is
  \<^verbatim>\<open>null\<close>) makes line 49, which stands before the \<^verbatim>\<open>try\<close> statement, raise
  \<^verbatim>\<open>AttributeError\<close>: for the three features A, a feature without geometry, and B, the
  call raises and no row is returned. A raster without CRS makes \<^verbatim>\<open>to_crs\<close> on line 42
  raise \<^verbatim>\<open>ValueError\<close>: for the two zones A and B no row is returned.
\<close>

theorem zone_without_geometry_aborts:
  "length (rows zones_A_null_B) = 3 \<and>
   raised (compute_zonal_mean (simple_world raster_4x4 zones_A_null_B)
             ''ndvi.tif'' ''fields.geojson'') =
     Some (AttributeError ''NoneType object has no attribute __geo_interface__'') \<and>
   returned (compute_zonal_mean (simple_world raster_4x4 zones_A_null_B)
               ''ndvi.tif'' ''fields.geojson'') = None \<and>
   length (rows zones_A_B) = 2 \<and>
   raised (compute_zonal_mean (simple_world raster_4x4_no_crs zones_A_B)
             ''ndvi.tif'' ''fields.geojson'') =
     Some (ValueError ''Must pass either crs or epsg.'') \<and>
   returned (compute_zonal_mean (simple_world raster_4x4_no_crs zones_A_B)
               ''ndvi.tif'' ''fields.geojson'') = None"
proof -
  have r: "returned res = None" if "raised res = Some e" for res :: "log_record list \<times> (error + (nat \<times> nat) list geodataframe)" and e
    using that raised_returned [of res] by simp
  show ?thesis
    using run_without_geometry(1) run_without_crs(1)
      r [OF run_without_geometry(1)] r [OF run_without_crs(1)]
    by (simp add: zones_A_null_B_def zones_A_B_def)
qed

text \<open>
  Claim C1, amended. For a raster that exists, can be read and has a CRS, and a zone source
  that exists, can be read and has N features (N > 0), each with a geometry, the call
  returns a frame of exactly N rows. Row \<open>i\<close> of the result is zone \<open>i\<close> of the input:
  it carries that zone's geometry (reprojected to the raster's CRS), that zone's own
  attributes unchanged, and the four statistics of that zone, which are the zero-coverage
  tuple when the clip of the zone raised. No row is left out.
\<close>

theorem one_row_per_zone_in_order:
  assumes "raster_files w rp = Some (Readable src)" and "vector_files w vp = Some (Readable zones)"
    and "rows zones \<noteq> []" and "raster_crs src \<noteq> None" and "has_geometries zones"
  shows "\<exists>out. returned (compute_zonal_mean w rp vp) = Some out \<and>
           length (rows out) = length (rows zones) \<and>
           (\<forall>i < length (rows zones).
              geometry (rows out ! i) = Some (reprojected w src zones i) \<and>
              (\<forall>c. c \<notin> {''id'', ''ndvi_mean'', ''ndvi_min'', ''ndvi_max'', ''ndvi_count''} \<longrightarrow>
                 cells (rows out ! i) c = cells (rows zones ! i) c) \<and>
              statistics_of (rows out ! i) = Some (zone_outcome src (reprojected w src zones i)))"
proof -
  from compute_zonal_mean_ok [OF assms]
  obtain out lg where out: "compute_zonal_mean w rp vp = (lg, Inr out)"
      "length (rows out) = length (rows zones)"
      "\<forall>i < length (rows zones).
         geometry (rows out ! i) = Some (reprojected w src zones i) \<and>
         cells (rows out ! i) = result_cells zones i (zone_outcome src (reprojected w src zones i))"
    by blast
  have "returned (compute_zonal_mean w rp vp) = Some out"
    by (simp add: out(1) returned_def)
  moreover have "geometry (rows out ! i) = Some (reprojected w src zones i) \<and>
      (\<forall>c. c \<notin> {''id'', ''ndvi_mean'', ''ndvi_min'', ''ndvi_max'', ''ndvi_count''} \<longrightarrow>
         cells (rows out ! i) c = cells (rows zones ! i) c) \<and>
      statistics_of (rows out ! i) = Some (zone_outcome src (reprojected w src zones i))"
    if "i < length (rows zones)" for i
    using out(3) that by (simp add: statistics_of_cells result_cells_other del: insert_iff)
  ultimately show ?thesis using out(2) by blast
qed

theorem one_row_per_zone_in_order_witness:
  "\<exists>out. returned (compute_zonal_mean (simple_world raster_4x4 zones_A_B)
                     ''ndvi.tif'' ''fields.geojson'') = Some out \<and>
         length (rows out) = 2 \<and>
         cells (rows out ! 0) ''name'' = Some (StrCell ''A'') \<and>
         cells (rows out ! 1) ''name'' = Some (StrCell ''B'')"
proof -
  have ne: "rows zones_A_B \<noteq> []"
    by (simp add: zones_A_B_def)
  have crs: "raster_crs raster_4x4 \<noteq> None"
    by (simp add: fixture_crs)
  have n: "length (rows zones_A_B) = 2"
    by (simp add: zones_A_B_def)
  have names: "cells (rows zones_A_B ! 0) ''name'' = Some (StrCell ''A'')"
      "cells (rows zones_A_B ! 1) ''name'' = Some (StrCell ''B'')"
    by (simp_all add: zones_A_B_def zone_def)
  from one_row_per_zone_in_order [OF fixture_files [of raster_4x4 zones_A_B] ne crs
      fixture_geometries(1), unfolded n]
  obtain out where o:
      "returned (compute_zonal_mean (simple_world raster_4x4 zones_A_B)
                   ''ndvi.tif'' ''fields.geojson'') = Some out"
      "length (rows out) = 2"
      "\<forall>i < 2. geometry (rows out ! i) = Some (reprojected (simple_world raster_4x4 zones_A_B) raster_4x4 zones_A_B i) \<and>
          (\<forall>c. c \<notin> {''id'', ''ndvi_mean'', ''ndvi_min'', ''ndvi_max'', ''ndvi_count''} \<longrightarrow>
                 cells (rows out ! i) c = cells (rows zones_A_B ! i) c) \<and>
          statistics_of (rows out ! i) = Some (zone_outcome raster_4x4 (reprojected (simple_world raster_4x4 zones_A_B) raster_4x4 zones_A_B i))"
    by (elim exE conjE) (rule that)
  from o(3) [rule_format, of 0] have "cells (rows out ! 0) ''name'' = cells (rows zones_A_B ! 0) ''name''"
    by simp
  moreover from o(3) [rule_format, of 1] have "cells (rows out ! 1) ''name'' = cells (rows zones_A_B ! 1) ''name''"
    by simp
  ultimately show ?thesis using o(1,2) names by auto
qed

section \<open>Fatal errors\<close>

text \<open>
  Claim C2, as stated, fails: the call raises in other cases than the three it names. For a
  raster without CRS and the two zones A and B, \<^verbatim>\<open>to_crs\<close> raises \<^verbatim>\<open>ValueError\<close> on line
  42; for a raster file that exists and that \<^verbatim>\<open>rasterio.open\<close> cannot read, line 30 raises;
  for the three features A, a feature without geometry, and B, line 49 raises
  \<^verbatim>\<open>AttributeError\<close>. In all three the paths exist and the zone source has features.
\<close>

theorem raises_outside_the_three_cases:
  "raster_files (simple_world raster_4x4_no_crs zones_A_B) ''ndvi.tif'' =
     Some (Readable raster_4x4_no_crs) \<and>
   vector_files (simple_world raster_4x4_no_crs zones_A_B) ''fields.geojson'' =
     Some (Readable zones_A_B) \<and>
   length (rows zones_A_B) = 2 \<and>
   raised (compute_zonal_mean (simple_world raster_4x4_no_crs zones_A_B)
             ''ndvi.tif'' ''fields.geojson'') =
     Some (ValueError ''Must pass either crs or epsg.'') \<and>
   raster_files (world_of (Unreadable ''not recognized as a supported file format'')
                   (Readable zones_A_B)) ''ndvi.tif'' =
     Some (Unreadable ''not recognized as a supported file format'') \<and>
   raised (compute_zonal_mean
             (world_of (Unreadable ''not recognized as a supported file format'')
                (Readable zones_A_B)) ''ndvi.tif'' ''fields.geojson'') =
     Some (RasterioIOError ''not recognized as a supported file format'') \<and>
   length (rows zones_A_null_B) = 3 \<and>
   raised (compute_zonal_mean (simple_world raster_4x4 zones_A_null_B)
             ''ndvi.tif'' ''fields.geojson'') =
     Some (AttributeError ''NoneType object has no attribute __geo_interface__'')"
  using run_without_crs(1) run_unreadable_raster(1) run_without_geometry(1)
  by (simp add: fixture_files world_of_def zones_A_B_def zones_A_null_B_def)

text \<open>
  Claim C2, amended. The call raises, with nothing returned and no zone processed, when the
  raster path does not exist (\<^verbatim>\<open>FileNotFoundError\<close>, raster not found), when the
  zone-source path does not exist (\<^verbatim>\<open>FileNotFoundError\<close>, vector not found), when the
  raster or the zone source exists and cannot be read (the exception of the reader), when
  the zone source has no feature (\<^verbatim>\<open>ValueError\<close>) and when the raster has no CRS
  (\<^verbatim>\<open>ValueError\<close>). In each of these cases the log holds at most the two loading
  messages: the failure precedes the loop over the zones. When both files can be read, the
  zone source has a feature, the raster has a CRS and every feature has a geometry, the
  call returns a frame and raises nothing.
\<close>

theorem fatal_errors_and_return:
  "(raster_files w rp = None \<longrightarrow>
      compute_zonal_mean w rp vp = ([], Inl (FileNotFoundError (''Raster not found: '' @ rp)))) \<and>
   (raster_files w rp \<noteq> None \<and> vector_files w vp = None \<longrightarrow>
      compute_zonal_mean w rp vp = ([], Inl (FileNotFoundError (''Vector not found: '' @ vp)))) \<and>
   (raster_files w rp = Some (Unreadable msg) \<and> vector_files w vp \<noteq> None \<longrightarrow>
      compute_zonal_mean w rp vp =
        ([INFO (''Loading raster: '' @ rp)], Inl (RasterioIOError msg))) \<and>
   (raster_files w rp = Some (Readable src) \<and> vector_files w vp = Some (Unreadable msg) \<longrightarrow>
      compute_zonal_mean w rp vp =
        ([INFO (''Loading raster: '' @ rp), INFO (''Loading polygons: '' @ vp)],
         Inl (DataSourceError msg))) \<and>
   (raster_files w rp = Some (Readable src) \<and> vector_files w vp = Some (Readable zones) \<and>
    rows zones = [] \<longrightarrow>
      compute_zonal_mean w rp vp =
        ([INFO (''Loading raster: '' @ rp), INFO (''Loading polygons: '' @ vp)],
         Inl (ValueError ''Vector file has no features.''))) \<and>
   (raster_files w rp = Some (Readable src) \<and> vector_files w vp = Some (Readable zones) \<and>
    rows zones \<noteq> [] \<and> raster_crs src = None \<longrightarrow>
      compute_zonal_mean w rp vp =
        ([INFO (''Loading raster: '' @ rp), INFO (''Loading polygons: '' @ vp)],
         Inl (ValueError ''Must pass either crs or epsg.''))) \<and>
   (raster_files w rp = Some (Readable src) \<and> vector_files w vp = Some (Readable zones) \<and>
    rows zones \<noteq> [] \<and> raster_crs src \<noteq> None \<and> has_geometries zones \<longrightarrow>
      returned (compute_zonal_mean w rp vp) \<noteq> None \<and>
      raised (compute_zonal_mean w rp vp) = None)"
proof -
  have a: "raster_files w rp = None \<longrightarrow>
      compute_zonal_mean w rp vp = ([], Inl (FileNotFoundError (''Raster not found: '' @ rp)))"
    by (simp add: compute_zonal_mean_def)
  have b: "raster_files w rp \<noteq> None \<and> vector_files w vp = None \<longrightarrow>
      compute_zonal_mean w rp vp = ([], Inl (FileNotFoundError (''Vector not found: '' @ vp)))"
    by (auto simp add: compute_zonal_mean_def)
  have c: "raster_files w rp = Some (Unreadable msg) \<and> vector_files w vp \<noteq> None \<longrightarrow>
      compute_zonal_mean w rp vp =
        ([INFO (''Loading raster: '' @ rp)], Inl (RasterioIOError msg))"
    by (auto simp add: compute_zonal_mean_def)
  have d: "raster_files w rp = Some (Readable src) \<and> vector_files w vp = Some (Unreadable msg) \<longrightarrow>
      compute_zonal_mean w rp vp =
        ([INFO (''Loading raster: '' @ rp), INFO (''Loading polygons: '' @ vp)],
         Inl (DataSourceError msg))"
    by (simp add: compute_zonal_mean_def)
  have e: "raster_files w rp = Some (Readable src) \<and> vector_files w vp = Some (Readable zones) \<and>
    rows zones = [] \<longrightarrow>
      compute_zonal_mean w rp vp =
        ([INFO (''Loading raster: '' @ rp), INFO (''Loading polygons: '' @ vp)],
         Inl (ValueError ''Vector file has no features.''))"
    by (simp add: compute_zonal_mean_def)
  have f: "raster_files w rp = Some (Readable src) \<and> vector_files w vp = Some (Readable zones) \<and>
    rows zones \<noteq> [] \<and> raster_crs src = None \<longrightarrow>
      compute_zonal_mean w rp vp =
        ([INFO (''Loading raster: '' @ rp), INFO (''Loading polygons: '' @ vp)],
         Inl (ValueError ''Must pass either crs or epsg.''))"
    by (simp add: compute_zonal_mean_def to_crs_def set_crs_def split: option.splits)
  have g: "raster_files w rp = Some (Readable src) \<and> vector_files w vp = Some (Readable zones) \<and>
    rows zones \<noteq> [] \<and> raster_crs src \<noteq> None \<and> has_geometries zones \<longrightarrow>
      returned (compute_zonal_mean w rp vp) \<noteq> None \<and>
      raised (compute_zonal_mean w rp vp) = None"
  proof
    assume h: "raster_files w rp = Some (Readable src) \<and> vector_files w vp = Some (Readable zones) \<and>
      rows zones \<noteq> [] \<and> raster_crs src \<noteq> None \<and> has_geometries zones"
    then have "\<exists>lg out. compute_zonal_mean w rp vp = (lg, Inr out)"
      using compute_zonal_mean_ok [of w rp src vp zones] by blast
    then show "returned (compute_zonal_mean w rp vp) \<noteq> None \<and>
      raised (compute_zonal_mean w rp vp) = None"
      by (auto simp add: returned_def raised_def)
  qed
  show ?thesis
    by (rule conjI [OF a conjI [OF b conjI [OF c conjI [OF d conjI [OF e conjI [OF f g]]]]]])
qed

theorem fatal_errors_and_return_witness:
  "compute_zonal_mean (simple_world raster_4x4 zones_A_B) ''missing.tif'' ''fields.geojson'' =
     ([], Inl (FileNotFoundError ''Raster not found: missing.tif'')) \<and>
   compute_zonal_mean (simple_world raster_4x4 zones_A_B) ''ndvi.tif'' ''missing.geojson'' =
     ([], Inl (FileNotFoundError ''Vector not found: missing.geojson'')) \<and>
   compute_zonal_mean (world_of (Unreadable ''not a raster'') (Readable zones_A_B))
       ''ndvi.tif'' ''fields.geojson'' =
     ([INFO ''Loading raster: ndvi.tif''], Inl (RasterioIOError ''not a raster'')) \<and>
   compute_zonal_mean (world_of (Readable raster_4x4) (Unreadable ''not a zone source''))
       ''ndvi.tif'' ''fields.geojson'' =
     ([INFO ''Loading raster: ndvi.tif'', INFO ''Loading polygons: fields.geojson''],
      Inl (DataSourceError ''not a zone source'')) \<and>
   compute_zonal_mean (simple_world raster_4x4 (zones_A_B\<lparr>rows := []\<rparr>))
       ''ndvi.tif'' ''fields.geojson'' =
     ([INFO ''Loading raster: ndvi.tif'', INFO ''Loading polygons: fields.geojson''],
      Inl (ValueError ''Vector file has no features.'')) \<and>
   compute_zonal_mean (simple_world raster_4x4_no_crs zones_A_B) ''ndvi.tif'' ''fields.geojson'' =
     ([INFO ''Loading raster: ndvi.tif'', INFO ''Loading polygons: fields.geojson''],
      Inl (ValueError ''Must pass either crs or epsg.'')) \<and>
   returned (compute_zonal_mean (simple_world raster_4x4 zones_A_B)
               ''ndvi.tif'' ''fields.geojson'') \<noteq> None"
proof -
  let ?w = "simple_world raster_4x4 zones_A_B"
  have 1: "compute_zonal_mean ?w ''missing.tif'' ''fields.geojson'' =
     ([], Inl (FileNotFoundError ''Raster not found: missing.tif''))"
    using fatal_errors_and_return [of ?w "''missing.tif''" "''fields.geojson''"]
    by (simp add: simple_world_def world_of_def)
  have 2: "compute_zonal_mean ?w ''ndvi.tif'' ''missing.geojson'' =
     ([], Inl (FileNotFoundError ''Vector not found: missing.geojson''))"
    using fatal_errors_and_return [of ?w "''ndvi.tif''" "''missing.geojson''"]
    by (simp add: simple_world_def world_of_def)
  have 3: "compute_zonal_mean (world_of (Unreadable ''not a raster'') (Readable zones_A_B))
       ''ndvi.tif'' ''fields.geojson'' =
     ([INFO ''Loading raster: ndvi.tif''], Inl (RasterioIOError ''not a raster''))"
    using fatal_errors_and_return [of "world_of (Unreadable ''not a raster'') (Readable zones_A_B)"
        "''ndvi.tif''" "''fields.geojson''" "''not a raster''"]
    by (simp add: world_of_def)
  have 4: "compute_zonal_mean (world_of (Readable raster_4x4) (Unreadable ''not a zone source''))
       ''ndvi.tif'' ''fields.geojson'' =
     ([INFO ''Loading raster: ndvi.tif'', INFO ''Loading polygons: fields.geojson''],
      Inl (DataSourceError ''not a zone source''))"
    using fatal_errors_and_return [of "world_of (Readable raster_4x4) (Unreadable ''not a zone source'')"
        "''ndvi.tif''" "''fields.geojson''" "''not a zone source''" raster_4x4]
    by (simp add: world_of_def)
  have 5: "compute_zonal_mean (simple_world raster_4x4 (zones_A_B\<lparr>rows := []\<rparr>))
       ''ndvi.tif'' ''fields.geojson'' =
     ([INFO ''Loading raster: ndvi.tif'', INFO ''Loading polygons: fields.geojson''],
      Inl (ValueError ''Vector file has no features.''))"
    using fatal_errors_and_return [of "simple_world raster_4x4 (zones_A_B\<lparr>rows := []\<rparr>)"
        "''ndvi.tif''" "''fields.geojson''" _ raster_4x4 "zones_A_B\<lparr>rows := []\<rparr>"]
    by (simp add: fixture_files)
  have 6: "compute_zonal_mean (simple_world raster_4x4_no_crs zones_A_B) ''ndvi.tif'' ''fields.geojson'' =
     ([INFO ''Loading raster: ndvi.tif'', INFO ''Loading polygons: fields.geojson''],
      Inl (ValueError ''Must pass either crs or epsg.''))"
    using fatal_errors_and_return [of "simple_world raster_4x4_no_crs zones_A_B"
        "''ndvi.tif''" "''fields.geojson''" _ raster_4x4_no_crs zones_A_B]
    by (simp add: fixture_files raster_4x4_no_crs_def zones_A_B_def)
  have 7: "returned (compute_zonal_mean ?w ''ndvi.tif'' ''fields.geojson'') \<noteq> None"
    using fatal_errors_and_return [of ?w "''ndvi.tif''" "''fields.geojson''" _ raster_4x4 zones_A_B]
      fixture_geometries(1)
    by (simp add: fixture_files fixture_crs zones_A_B_def)
  from 1 2 3 4 5 6 7 show ?thesis by (intro conjI)
qed

section \<open>Failure isolation\<close>

text \<open>
  Claim C3, as stated, fails in two ways. The \<^verbatim>\<open>try\<close> statement of lines 50 to 65 does
  not enclose line 49: in the zone set of A, a feature without geometry, and B, exactly one
  zone fails, and its \<^verbatim>\<open>AttributeError\<close> leaves the call. And the row of a zone in the
  full run differs from the row of its standalone run in the identifier that line 69
  synthesizes, which is the position of the zone in the set that is aggregated: in the set
  of A, a degenerate zone, and B, zone B has the identifier \<^verbatim>\<open>'2'\<close>; aggregated alone it
  has \<^verbatim>\<open>'0'\<close>.
\<close>

theorem isolation_fails_for_missing_geometry:
  "length (rows zones_A_null_B) = 3 \<and>
   raised (compute_zonal_mean (simple_world raster_4x4 zones_A_null_B)
             ''ndvi.tif'' ''fields.geojson'') =
     Some (AttributeError ''NoneType object has no attribute __geo_interface__'') \<and>
   map_option (column_values ''id'')
     (returned (compute_zonal_mean (simple_world raster_4x4 zones_A_degenerate_B)
                  ''ndvi.tif'' ''fields.geojson'')) =
     Some [Some (StrCell ''0''), Some (StrCell ''1''), Some (StrCell ''2'')] \<and>
   map_option (column_values ''id'')
     (returned (compute_zonal_mean
                  (with_zones (simple_world raster_4x4 zones_A_degenerate_B) ''fields.geojson''
                     (single_zone zones_A_degenerate_B 2))
                  ''ndvi.tif'' ''fields.geojson'')) =
     Some [Some (StrCell ''0'')]"
  using run_without_geometry(1) ids_full_run ids_standalone_run
  by (simp add: zones_A_null_B_def)

text \<open>
  Claim C3, amended. For a raster with a CRS and a zone set in which every feature has a
  geometry, the call returns all N rows, whatever the zones do in the clip. For a zone whose
  clip raises, the row holds the zero-coverage tuple (NaN, NaN, NaN, 0) and a warning naming
  the zone's position and the exception is in the log; for a zone whose clip succeeds, the
  statistics of its row are those of its own clipped band, and the row agrees with the row
  that the run on that zone alone returns in the geometry, in the four statistics and in
  every other column, except the identifier when line 69 synthesizes it. So a zone set in
  which exactly one zone's clip fails gets the zero-coverage row for it and the standalone
  results for all others, and no exception of the clip leaves the call.
\<close>

theorem per_zone_failure_isolated:
  assumes "raster_files w rp = Some (Readable src)" and "vector_files w vp = Some (Readable zones)"
    and "j < length (rows zones)" and "raster_crs src \<noteq> None" and "has_geometries zones"
  shows "\<exists>lg out. compute_zonal_mean w rp vp = (lg, Inr out) \<and>
           length (rows out) = length (rows zones) \<and>
           (case mask src (reprojected w src zones j) of
              Inl e \<Rightarrow>
                statistics_of (rows out ! j) = Some (NaN, NaN, NaN, 0) \<and>
                WARNING (''Polygon '' @ string_of_nat j @ '' failed: '' @ e) \<in> set lg
            | Inr out_img \<Rightarrow>
                (\<exists>lg1 out1.
                   compute_zonal_mean (with_zones w vp (single_zone zones j)) rp vp = (lg1, Inr out1) \<and>
                   length (rows out1) = 1 \<and>
                   geometry (rows out ! j) = geometry (rows out1 ! 0) \<and>
                   (\<forall>c. c \<noteq> ''id'' \<or> ''id'' \<in> set (columns zones) \<longrightarrow>
                      cells (rows out ! j) c = cells (rows out1 ! 0) c) \<and>
                   statistics_of (rows out ! j) = statistics_of (rows out1 ! 0) \<and>
                   statistics_of (rows out ! j) = Some (zone_statistics (nodata src) out_img)))"
proof -
  from assms(3) have ne: "rows zones \<noteq> []" by auto
  from compute_zonal_mean_ok [OF assms(1,2) ne assms(4,5)] obtain out where
    run: "compute_zonal_mean w rp vp =
           (loading_log src rp vp @
              concat (map (\<lambda>i. zone_warnings src i (reprojected w src zones i))
                        [0 ..< length (rows zones)]),
            Inr out)"
    and len: "length (rows out) = length (rows zones)"
    and row: "\<forall>i < length (rows zones).
             geometry (rows out ! i) = Some (reprojected w src zones i) \<and>
             cells (rows out ! i) =
               result_cells zones i (zone_outcome src (reprojected w src zones i))"
    by blast
  from row assms(3) have st: "statistics_of (rows out ! j) =
      Some (zone_outcome src (reprojected w src zones j))"
    by (simp add: statistics_of_cells)
  show ?thesis
  proof (cases "mask src (reprojected w src zones j)")
    case (Inl e)
    have "WARNING (''Polygon '' @ string_of_nat j @ '' failed: '' @ e) \<in>
          set (zone_warnings src j (reprojected w src zones j))"
      by (simp add: zone_warnings_def Inl)
    with assms(3) have "WARNING (''Polygon '' @ string_of_nat j @ '' failed: '' @ e) \<in>
        set (concat (map (\<lambda>i. zone_warnings src i (reprojected w src zones i))
                        [0 ..< length (rows zones)]))"
      by (simp del: append.simps) (rule bexI [of _ j], simp_all)
    moreover have "statistics_of (rows out ! j) = Some (NaN, NaN, NaN, 0)"
      by (simp add: st zone_outcome_def Inl)
    ultimately show ?thesis using run len Inl by simp
  next
    case (Inr out_img)
    have "statistics_of (rows out ! j) = Some (zone_statistics (nodata src) out_img)"
      by (simp add: st zone_outcome_def Inr)
    moreover from row assms(3) have
      "geometry (rows out ! j) = Some (reprojected w src zones j)"
      "cells (rows out ! j) = result_cells zones j (zone_outcome src (reprojected w src zones j))"
      by simp_all
    ultimately have
      "\<exists>lg1 out1.
         compute_zonal_mean (with_zones w vp (single_zone zones j)) rp vp = (lg1, Inr out1) \<and>
         length (rows out1) = 1 \<and>
         geometry (rows out ! j) = geometry (rows out1 ! 0) \<and>
         (\<forall>c. c \<noteq> ''id'' \<or> ''id'' \<in> set (columns zones) \<longrightarrow>
            cells (rows out ! j) c = cells (rows out1 ! 0) c) \<and>
         statistics_of (rows out ! j) = statistics_of (rows out1 ! 0) \<and>
         statistics_of (rows out ! j) = Some (zone_statistics (nodata src) out_img)"
      using single_zone_run [OF assms] st by auto
    then show ?thesis using run len Inr by simp
  qed
qed

theorem per_zone_failure_isolated_witness:
  "(\<exists>lg out. compute_zonal_mean (simple_world raster_4x4 zones_A_degenerate_B)
                 ''ndvi.tif'' ''fields.geojson'' = (lg, Inr out) \<and>
      length (rows out) = 3 \<and>
      statistics_of (rows out ! 1) = Some (NaN, NaN, NaN, 0) \<and>
      WARNING ''Polygon 1 failed: Input shapes do not overlap raster.'' \<in> set lg) \<and>
   (\<exists>lg out lg1 out1.
      compute_zonal_mean (simple_world raster_4x4 zones_A_degenerate_B)
        ''ndvi.tif'' ''fields.geojson'' = (lg, Inr out) \<and>
      compute_zonal_mean
        (with_zones (simple_world raster_4x4 zones_A_degenerate_B) ''fields.geojson''
           (single_zone zones_A_degenerate_B 2))
        ''ndvi.tif'' ''fields.geojson'' = (lg1, Inr out1) \<and>
      length (rows out1) = 1 \<and>
      geometry (rows out ! 2) = geometry (rows out1 ! 0) \<and>
      cells (rows out ! 2) ''name'' = cells (rows out1 ! 0) ''name'' \<and>
      statistics_of (rows out ! 2) = statistics_of (rows out1 ! 0))"
proof
  let ?w = "simple_world raster_4x4 zones_A_degenerate_B"
  note files = fixture_files [of raster_4x4 zones_A_degenerate_B]
  have n: "length (rows zones_A_degenerate_B) = 3"
    by (simp add: zones_A_degenerate_B_def)
  have j: "1 < length (rows zones_A_degenerate_B)"
    by (simp add: n)
  note c = fixture_zone_crs(2) fixture_crs(2)
  have crs: "raster_crs raster_4x4 \<noteq> None"
    by (simp add: fixture_crs)
  have g: "the (geometry (rows zones_A_degenerate_B ! 1)) = []"
    by (simp add: zones_A_degenerate_B_def zone_def)
  have m: "mask raster_4x4 [] = Inl ''Input shapes do not overlap raster.''"
    by (simp add: raster_4x4_def mask_empty_zone)
  have s: "string_of_nat 1 = ''1''"
    by (simp add: string_of_nat_digit digit_def)
  from per_zone_failure_isolated [OF files j crs fixture_geometries(3),
      unfolded reprojected_same_crs [OF c] g m n sum.case s]
  show "\<exists>lg out. compute_zonal_mean ?w ''ndvi.tif'' ''fields.geojson'' = (lg, Inr out) \<and>
      length (rows out) = 3 \<and>
      statistics_of (rows out ! 1) = Some (NaN, NaN, NaN, 0) \<and>
      WARNING ''Polygon 1 failed: Input shapes do not overlap raster.'' \<in> set lg"
    by simp
next
  let ?w = "simple_world raster_4x4 zones_A_degenerate_B"
  note files = fixture_files [of raster_4x4 zones_A_degenerate_B]
  have j: "2 < length (rows zones_A_degenerate_B)"
    by (simp add: zones_A_degenerate_B_def)
  note c = fixture_zone_crs(2) fixture_crs(2)
  have crs: "raster_crs raster_4x4 \<noteq> None"
    by (simp add: fixture_crs)
  have g: "the (geometry (rows zones_A_degenerate_B ! 2)) =
      [(1, 0), (1, 1), (1, 2), (1, 3), (2, 0), (2, 1), (2, 2), (2, 3),
       (3, 0), (3, 1), (3, 2), (3, 3)]"
    by (simp add: zones_A_degenerate_B_def zone_def)
  from per_zone_failure_isolated [OF files j crs fixture_geometries(3),
      unfolded reprojected_same_crs [OF c] g mask_4x4_B sum.case]
  show "\<exists>lg out lg1 out1.
      compute_zonal_mean ?w ''ndvi.tif'' ''fields.geojson'' = (lg, Inr out) \<and>
      compute_zonal_mean (with_zones ?w ''fields.geojson'' (single_zone zones_A_degenerate_B 2))
        ''ndvi.tif'' ''fields.geojson'' = (lg1, Inr out1) \<and>
      length (rows out1) = 1 \<and>
      geometry (rows out ! 2) = geometry (rows out1 ! 0) \<and>
      cells (rows out ! 2) ''name'' = cells (rows out1 ! 0) ''name'' \<and>
      statistics_of (rows out ! 2) = statistics_of (rows out1 ! 0)"
    by (elim exE conjE) (intro exI conjI, assumption, assumption, assumption, assumption, simp,
      assumption)
qed

section \<open>Nodata\<close>



section \<open>The footprint of a zone\<close>

text \<open>
  Claim C5. The statistics of a zone are to range over the pixels the polygon covers, and
  without a nodata sentinel a pixel is to be left out exactly when it is not finite. The
  code leaves out the pixels outside the polygon only through the nodata value that
  \<^verbatim>\<open>mask\<close> fills them with; when the raster declares none, \<^verbatim>\<open>mask\<close> fills them with 0
  and line 55 keeps them. On the 2 x 2 raster without nodata value the triangular zone
  covers three pixels of value 0.5 and not the fourth pixel of its window; the row the
  code returns is (0.375, 0, 0.5, 4), where the covered pixels alone give (0.5, 0.5, 0.5, 3).
\<close>

theorem uncovered_pixel_counted_without_nodata:
  "nodata raster_no_nodata = None \<and>
   geometries zone_triangle = [[(0, 0), (1, 0), (1, 1)]] \<and>
   read_window raster_no_nodata [(0, 0), (1, 0), (1, 1)] =
     Inr [(Finite (1 / 2), True), (Finite (3 / 4), False), (Finite (1 / 2), True),
          (Finite (1 / 2), True)] \<and>
   map_option statistics
     (returned (compute_zonal_mean (simple_world raster_no_nodata zone_triangle)
                  ''ndvi.tif'' ''fields.geojson'')) =
   Some [Some (Finite (3 / 8), Finite 0, Finite (1 / 2), 4)]"
  using statistics_triangle window_triangle
  by (simp add: raster_no_nodata_def grid_raster_def zone_triangle_def geometries_def zone_def)

section \<open>The identifier column\<close>

text \<open>
  Claim C6, as stated, fails for a zone set that brings its own \<^verbatim>\<open>id\<close> column: line 69
  adds the column only when it is missing, and a supplied column is returned as it is.
  For the zones that \<^verbatim>\<open>04a_make_grid_over_ndvi.py\<close> writes, the identifiers of the
  result are the integers 1 and 2, not strings.
\<close>

theorem supplied_identifier_not_string:
  "map_option (column_values ''id'')
     (returned (compute_zonal_mean (simple_world raster_4x4 zones_with_ids)
                  ''ndvi.tif'' ''fields.geojson'')) =
   Some [Some (IntCell 1), Some (IntCell 2)]"
  by (rule ids_supplied)

text \<open>
  Claim C6, amended. The frame that a call returns (the raster has a CRS and every feature
  has a geometry) has an identifier for every row: when the zone set has no \<^verbatim>\<open>id\<close>
  column, the identifiers are the strings of the zero-based row positions, in order; when
  it has one, the identifiers are the supplied values, unchanged.
\<close>

theorem identifier_column:
  assumes "raster_files w rp = Some (Readable src)" and "vector_files w vp = Some (Readable zones)"
    and "rows zones \<noteq> []" and "raster_crs src \<noteq> None" and "has_geometries zones"
  shows "\<exists>out. returned (compute_zonal_mean w rp vp) = Some out \<and>
           (''id'' \<notin> set (columns zones) \<longrightarrow>
              column_values ''id'' out =
                map (\<lambda>i. Some (StrCell (string_of_nat i))) [0 ..< length (rows zones)]) \<and>
           (''id'' \<in> set (columns zones) \<longrightarrow>
              column_values ''id'' out = column_values ''id'' zones)"
proof -
  from compute_zonal_mean_ok [OF assms]
  obtain out lg where out: "compute_zonal_mean w rp vp = (lg, Inr out)"
      "length (rows out) = length (rows zones)"
      "\<forall>i < length (rows zones).
         geometry (rows out ! i) = Some (reprojected w src zones i) \<and>
         cells (rows out ! i) = result_cells zones i (zone_outcome src (reprojected w src zones i))"
    by blast
  have ret: "returned (compute_zonal_mean w rp vp) = Some out"
    by (simp add: out(1) returned_def)
  have id: "cells (rows out ! i) ''id'' =
      (if ''id'' \<in> set (columns zones) then cells (rows zones ! i) ''id''
       else Some (StrCell (string_of_nat i)))"
    if "i < length (rows zones)" for i
    using out(3) that by (simp add: result_cells_def split: prod.splits)
  have a: "column_values ''id'' out =
      map (\<lambda>i. Some (StrCell (string_of_nat i))) [0 ..< length (rows zones)]"
    if "''id'' \<notin> set (columns zones)"
    using that out(2) id by (intro nth_equalityI) (simp_all add: column_values_def)
  have b: "column_values ''id'' out = column_values ''id'' zones"
    if "''id'' \<in> set (columns zones)"
    using that out(2) id by (intro nth_equalityI) (simp_all add: column_values_def)
  from ret a b show ?thesis by blast
qed

theorem identifier_column_witness:
  "\<exists>out. returned (compute_zonal_mean (simple_world raster_4x4 zones_A_B)
                     ''ndvi.tif'' ''fields.geojson'') = Some out \<and>
         column_values ''id'' out = [Some (StrCell ''0''), Some (StrCell ''1'')]"
proof -
  have n: "rows zones_A_B \<noteq> []" "''id'' \<notin> set (columns zones_A_B)"
      "[0 ..< length (rows zones_A_B)] = [0, 1]"
    by (simp_all add: zones_A_B_def upt_rec)
  have s: "string_of_nat 0 = ''0''" "string_of_nat (Suc 0) = ''1''"
    by (simp_all add: string_of_nat_digit digit_def)
  have crs: "raster_crs raster_4x4 \<noteq> None"
    by (simp add: fixture_crs)
  from identifier_column [OF fixture_files [of raster_4x4 zones_A_B] n(1) crs
      fixture_geometries(1)] n(2)
  show ?thesis by (auto simp add: n(3) s)
qed

section \<open>Reprojection\<close>

text \<open>
  Claim C7. For a raster with a CRS and zones that all have a geometry, the frame that is
  returned is in the CRS of the raster; each of its geometries is the input geometry
  transformed from the CRS of the zone set, taken to be EPSG:4326 when the zone set declares
  none, into the CRS of the raster; and the statistics of each zone are those of clipping
  the raster, as it is, with the transformed geometry.
\<close>

theorem zones_reprojected_to_raster_crs:
  assumes "raster_files w rp = Some (Readable src)" and "vector_files w vp = Some (Readable zones)"
    and "rows zones \<noteq> []" and "raster_crs src = Some c" and "has_geometries zones"
  shows "\<exists>out. returned (compute_zonal_mean w rp vp) = Some out \<and>
           gdf_crs out = Some c \<and>
           geometries out =
             map (transform w (case gdf_crs zones of None \<Rightarrow> ''EPSG:4326'' | Some z \<Rightarrow> z) c)
               (geometries zones) \<and>
           statistics out = map (\<lambda>g. Some (zone_outcome src g)) (geometries out)"
proof -
  from assms(4) have crs: "raster_crs src \<noteq> None" by simp
  from compute_zonal_mean_ok [OF assms(1,2,3) crs assms(5)]
  obtain out lg where out: "compute_zonal_mean w rp vp = (lg, Inr out)"
      "gdf_crs out = raster_crs src"
      "length (rows out) = length (rows zones)"
      "\<forall>i < length (rows zones).
         geometry (rows out ! i) = Some (reprojected w src zones i) \<and>
         cells (rows out ! i) = result_cells zones i (zone_outcome src (reprojected w src zones i))"
    by blast
  have "returned (compute_zonal_mean w rp vp) = Some out"
    by (simp add: out(1) returned_def)
  moreover have "geometries out =
      map (transform w (case gdf_crs zones of None \<Rightarrow> ''EPSG:4326'' | Some z \<Rightarrow> z) c)
        (geometries zones)"
    using out(3,4) assms(4)
    by (intro nth_equalityI) (simp_all add: geometries_def reprojected_def source_crs_def)
  moreover have "statistics out = map (\<lambda>g. Some (zone_outcome src g)) (geometries out)"
    using out(3,4)
    by (intro nth_equalityI) (simp_all add: geometries_def statistics_def statistics_of_cells)
  ultimately show ?thesis using out(2) assms(4) by auto
qed

theorem zones_reprojected_to_raster_crs_witness:
  "\<exists>out. returned (compute_zonal_mean (simple_world raster_4x4 (zones_A_B\<lparr>gdf_crs := None\<rparr>))
                     ''ndvi.tif'' ''fields.geojson'') = Some out \<and>
         gdf_crs out = Some ''EPSG:32634'' \<and>
         geometries out =
           [[(0, 1), (0, 2), (0, 3), (0, 4)],
            [(1, 1), (1, 2), (1, 3), (1, 4), (2, 1), (2, 2), (2, 3), (2, 4),
             (3, 1), (3, 2), (3, 3), (3, 4)]]"
proof -
  let ?z = "zones_A_B\<lparr>gdf_crs := None\<rparr>"
  let ?w = "simple_world raster_4x4 ?z"
  have r: "raster_files ?w ''ndvi.tif'' = Some (Readable raster_4x4)"
    by (simp add: fixture_files)
  have v: "vector_files ?w ''fields.geojson'' = Some (Readable ?z)"
    by (simp add: fixture_files)
  have n: "rows ?z \<noteq> []"
    by (simp add: zones_A_B_def)
  note c = fixture_crs(2)
  have g: "map (transform ?w (case gdf_crs ?z of None \<Rightarrow> ''EPSG:4326'' | Some z \<Rightarrow> z) ''EPSG:32634'')
             (geometries ?z) =
           [[(0, 1), (0, 2), (0, 3), (0, 4)],
            [(1, 1), (1, 2), (1, 3), (1, 4), (2, 1), (2, 2), (2, 3), (2, 4),
             (3, 1), (3, 2), (3, 3), (3, 4)]]"
    by (simp add: simple_world_def world_of_def zones_A_B_def zone_def geometries_def shift_right_def)
  from zones_reprojected_to_raster_crs [OF r v n c fixture_geometries(2), unfolded g] show ?thesis
    by blast
qed

section \<open>Consistency of the four statistics\<close>

text \<open>
  Claim C8. In every row of the frame that a call returns (the raster has a CRS and every
  feature has a geometry) the count is a non-negative integer, and it is 0 exactly when
  mean, min and max are all NaN. A zone whose clip raises (a polygon outside the raster
  extent) or whose window is empty gets (NaN, NaN, NaN, 0).
\<close>

theorem statistics_consistent:
  assumes "raster_files w rp = Some (Readable src)" and "vector_files w vp = Some (Readable zones)"
    and "i < length (rows zones)" and "raster_crs src \<noteq> None" and "has_geometries zones"
  shows "\<exists>out m mn mx c.
           returned (compute_zonal_mean w rp vp) = Some out \<and>
           statistics_of (rows out ! i) = Some (m, mn, mx, c) \<and>
           0 \<le> c \<and>
           (c = 0 \<longleftrightarrow> m = NaN \<and> mn = NaN \<and> mx = NaN) \<and>
           ((\<exists>e. read_window src (reprojected w src zones i) = Inl e) \<longrightarrow>
              (m, mn, mx, c) = (NaN, NaN, NaN, 0)) \<and>
           (read_window src (reprojected w src zones i) = Inr [] \<longrightarrow>
              (m, mn, mx, c) = (NaN, NaN, NaN, 0))"
proof -
  from assms(3) have ne: "rows zones \<noteq> []" by auto
  from compute_zonal_mean_ok [OF assms(1,2) ne assms(4,5)]
  obtain out lg where out: "compute_zonal_mean w rp vp = (lg, Inr out)"
      "\<forall>i < length (rows zones).
         geometry (rows out ! i) = Some (reprojected w src zones i) \<and>
         cells (rows out ! i) = result_cells zones i (zone_outcome src (reprojected w src zones i))"
    by blast
  define g where "g = reprojected w src zones i"
  obtain m mn mx c where t: "zone_outcome src g = (m, mn, mx, c)"
    by (cases "zone_outcome src g") auto
  have ret: "returned (compute_zonal_mean w rp vp) = Some out"
    by (simp add: out(1) returned_def)
  have st: "statistics_of (rows out ! i) = Some (m, mn, mx, c)"
    using out(2) assms(3) t by (simp add: statistics_of_cells g_def)
  have inv: "0 \<le> c \<and> (c = 0 \<longleftrightarrow> m = NaN \<and> mn = NaN \<and> mx = NaN)"
  proof (cases "mask src g")
    case (Inl e)
    with t show ?thesis by (simp add: zone_outcome_def)
  next
    case (Inr img)
    with t have "zone_statistics (nodata src) img = (m, mn, mx, c)"
      by (simp add: zone_outcome_def)
    from zone_statistics_consistent [OF this] show ?thesis by blast
  qed
  have fail: "(m, mn, mx, c) = (NaN, NaN, NaN, 0)" if "read_window src g = Inl e" for e
    using t that by (simp add: zone_outcome_def mask_def)
  have empty: "(m, mn, mx, c) = (NaN, NaN, NaN, 0)" if "read_window src g = Inr []"
    using t that by (simp add: zone_outcome_def mask_def zone_statistics_valid)
  from ret st inv fail empty show ?thesis unfolding g_def by blast
qed

theorem statistics_consistent_witness:
  "\<exists>out m mn mx c.
      returned (compute_zonal_mean (simple_world raster_4x4 zones_A_degenerate_B)
                  ''ndvi.tif'' ''fields.geojson'') = Some out \<and>
      statistics_of (rows out ! 1) = Some (m, mn, mx, c) \<and> 0 \<le> c \<and>
      (c = 0) = (m = NaN \<and> mn = NaN \<and> mx = NaN) \<and>
      (m, mn, mx, c) = (NaN, NaN, NaN, 0)"
proof -
  let ?w = "simple_world raster_4x4 zones_A_degenerate_B"
  have j: "1 < length (rows zones_A_degenerate_B)"
    by (simp add: zones_A_degenerate_B_def)
  note c = fixture_zone_crs(2) fixture_crs(2)
  have crs: "raster_crs raster_4x4 \<noteq> None"
    by (simp add: fixture_crs)
  have g: "the (geometry (rows zones_A_degenerate_B ! 1)) = []"
    by (simp add: zones_A_degenerate_B_def zone_def)
  have e: "read_window raster_4x4 [] = Inl ''Input shapes do not overlap raster.''"
    by (simp add: raster_4x4_def grid_raster_def grid_window_def)
  from statistics_consistent [OF fixture_files [of raster_4x4 zones_A_degenerate_B] j crs
      fixture_geometries(3),
      unfolded reprojected_same_crs [OF c] g e]
  show ?thesis by blast
qed

section \<open>Precision\<close>

text \<open>
  Claim C9, as stated, fails for a raster whose pixels are wider than float32: line 52
  casts the clipped band to float32 before anything is computed. On a float64 raster with
  the pixels \<open>2^24 + 1\<close> and \<open>2^128\<close> (both float64 values, both finite, no nodata
  declared) the code returns min = max = mean = \<open>2^24\<close> and count 1: the first pixel has
  lost its last bit and the second has become infinite and is dropped.
\<close>

theorem float64_raster_narrowed:
  "nodata raster_float64 = None \<and>
   float64 16777217 = Finite 16777217 \<and> float64 (2 ^ 128) = Finite (2 ^ 128) \<and>
   mask raster_float64 [(0, 0), (0, 1), (0, 2)] = Inr [Finite 16777217, Finite (2 ^ 128)] \<and>
   map_option statistics
     (returned (compute_zonal_mean (simple_world raster_float64 zone_first_row)
                  ''ndvi.tif'' ''fields.geojson'')) =
   Some [Some (Finite 16777216, Finite 16777216, Finite 16777216, 1)]"
  using statistics_float64 f64_values mask_float64
  by (simp add: raster_float64_def grid_raster_def)

text \<open>
  Claim C9, amended. In the frame that a call returns (the raster has a CRS and every
  feature has a geometry), mean, min and max of a zone are computed on the pixel values
  cast to float32, and a pixel is valid exactly when its float32 value is finite and
  differs from the float32 value of the declared nodata sentinel.
\<close>

theorem statistics_in_float32:
  assumes "raster_files w rp = Some (Readable src)" and "vector_files w vp = Some (Readable zones)"
    and "i < length (rows zones)" and "raster_crs src \<noteq> None" and "has_geometries zones"
    and "mask src (reprojected w src zones i) = Inr out_img"
  shows "\<exists>out. returned (compute_zonal_mean w rp vp) = Some out \<and>
           statistics_of (rows out ! i) =
             Some (let valid = map astype_float32 (filter (is_valid (nodata src)) out_img)
                   in if valid = [] then (NaN, NaN, NaN, 0)
                      else (np_mean valid, np_min valid, np_max valid, int (length valid))) \<and>
           (\<forall>v. is_valid (nodata src) v \<longleftrightarrow>
                  isfinite (astype_float32 v) \<and>
                  (\<forall>x. nodata src = Some x \<longrightarrow>
                         \<not> float_eq (astype_float32 v) (astype_float32 x)))"
proof -
  from assms(3) have ne: "rows zones \<noteq> []" by auto
  from compute_zonal_mean_ok [OF assms(1,2) ne assms(4,5)]
  obtain out lg where out: "compute_zonal_mean w rp vp = (lg, Inr out)"
      "\<forall>i < length (rows zones).
         geometry (rows out ! i) = Some (reprojected w src zones i) \<and>
         cells (rows out ! i) = result_cells zones i (zone_outcome src (reprojected w src zones i))"
    by blast
  have ret: "returned (compute_zonal_mean w rp vp) = Some out"
    by (simp add: out(1) returned_def)
  have st: "statistics_of (rows out ! i) =
             Some (let valid = map astype_float32 (filter (is_valid (nodata src)) out_img)
                   in if valid = [] then (NaN, NaN, NaN, 0)
                      else (np_mean valid, np_min valid, np_max valid, int (length valid)))"
    using out(2) assms(3,6)
    by (simp add: statistics_of_cells zone_outcome_def zone_statistics_valid Let_def)
  have v: "\<forall>v. is_valid (nodata src) v \<longleftrightarrow>
                  isfinite (astype_float32 v) \<and>
                  (\<forall>x. nodata src = Some x \<longrightarrow>
                         \<not> float_eq (astype_float32 v) (astype_float32 x))"
    by (simp add: is_valid_def split: option.splits)
  from ret st v show ?thesis by blast
qed

theorem statistics_in_float32_witness:
  "\<exists>out. returned (compute_zonal_mean (simple_world raster_float64 zone_first_row)
                     ''ndvi.tif'' ''fields.geojson'') = Some out \<and>
         statistics_of (rows out ! 0) =
           Some (Finite 16777216, Finite 16777216, Finite 16777216, 1)"
proof -
  have j: "0 < length (rows zone_first_row)"
    by (simp add: zone_first_row_def)
  note c = fixture_zone_crs(4) fixture_crs(4)
  have crs: "raster_crs raster_float64 \<noteq> None"
    by (simp add: fixture_crs)
  have g: "the (geometry (rows zone_first_row ! 0)) = [(0, 0), (0, 1), (0, 2)]"
    by (simp add: zone_first_row_def zone_def)
  have nd: "nodata raster_float64 = None"
    by (simp add: raster_float64_def grid_raster_def)
  have m: "mask raster_float64
             (reprojected (simple_world raster_float64 zone_first_row) raster_float64 zone_first_row 0) =
           Inr [Finite 16777217, Finite (2 ^ 128)]"
    unfolding reprojected_same_crs [OF c] g by (rule mask_float64)
  from statistics_in_float32 [OF fixture_files [of raster_float64 zone_first_row] j crs
      fixture_geometries(5) m,
      unfolded nd valid_float64]
  show ?thesis by blast
qed

section \<open>Order of the statistics\<close>

text \<open>
  Claim C10, as stated, fails for the mean: it is a float32 quotient of a float32 sum. For
  three pixels of value \<open>11184814 / 2^24\<close> the sum rounds down to \<open>33554440 / 2^24\<close> and
  the mean is \<open>11184813 / 2^24\<close>, below the minimum; for two pixels of value \<open>2^127\<close> the
  sum overflows and the mean is infinite, above the maximum.
\<close>

theorem mean_outside_min_max:
  "map_option statistics
     (returned (compute_zonal_mean (simple_world raster_two_thirds zone_first_row)
                  ''ndvi.tif'' ''fields.geojson'')) =
   Some [Some (Finite (11184813 / 16777216), Finite (11184814 / 16777216),
               Finite (11184814 / 16777216), 3)] \<and>
   \<not> float_le (Finite (11184814 / 16777216)) (Finite (11184813 / 16777216)) \<and>
   map_option statistics
     (returned (compute_zonal_mean (simple_world raster_large zone_first_row)
                  ''ndvi.tif'' ''fields.geojson'')) =
   Some [Some (PosInf, Finite (2 ^ 127), Finite (2 ^ 127), 2)] \<and>
   \<not> float_le PosInf (Finite (2 ^ 127))"
  using statistics_two_thirds statistics_large by simp

text \<open>
  Claim C10, amended. In every row with count > 0 of the frame that a call returns (the
  raster has a CRS and every feature has a geometry), min and max are finite and
  min <= max, and the count is at most the number of pixels of the zone's clipped window.
\<close>

theorem min_max_ordered_count_bounded:
  assumes "raster_files w rp = Some (Readable src)" and "vector_files w vp = Some (Readable zones)"
    and "i < length (rows zones)" and "raster_crs src \<noteq> None" and "has_geometries zones"
  shows "\<exists>out m mn mx c.
           returned (compute_zonal_mean w rp vp) = Some out \<and>
           statistics_of (rows out ! i) = Some (m, mn, mx, c) \<and>
           (0 < c \<longrightarrow>
              isfinite mn \<and> isfinite mx \<and> float_le mn mx \<and>
              (\<exists>window. read_window src (reprojected w src zones i) = Inr window \<and>
                         c \<le> int (length window)))"
proof -
  from assms(3) have ne: "rows zones \<noteq> []" by auto
  from compute_zonal_mean_ok [OF assms(1,2) ne assms(4,5)]
  obtain out lg where out: "compute_zonal_mean w rp vp = (lg, Inr out)"
      "\<forall>i < length (rows zones).
         geometry (rows out ! i) = Some (reprojected w src zones i) \<and>
         cells (rows out ! i) = result_cells zones i (zone_outcome src (reprojected w src zones i))"
    by blast
  define g where "g = reprojected w src zones i"
  obtain m mn mx c where t: "zone_outcome src g = (m, mn, mx, c)"
    by (cases "zone_outcome src g") auto
  have ret: "returned (compute_zonal_mean w rp vp) = Some out"
    by (simp add: out(1) returned_def)
  have st: "statistics_of (rows out ! i) = Some (m, mn, mx, c)"
    using out(2) assms(3) t by (simp add: statistics_of_cells g_def)
  have pos: "isfinite mn \<and> isfinite mx \<and> float_le mn mx \<and>
      (\<exists>window. read_window src g = Inr window \<and> c \<le> int (length window))" if "0 < c"
  proof (cases "read_window src g")
    case (Inl e)
    with t that show ?thesis by (simp add: zone_outcome_def mask_def)
  next
    case (Inr window)
    with t have "zone_statistics (nodata src)
        (map (\<lambda>(v, covered). if covered then v else fill_value src) window) = (m, mn, mx, c)"
      by (simp add: zone_outcome_def mask_def)
    from zone_statistics_consistent [OF this] that Inr show ?thesis by simp
  qed
  from ret st pos show ?thesis unfolding g_def by blast
qed

theorem min_max_ordered_count_bounded_witness:
  "\<exists>out m mn mx c.
      returned (compute_zonal_mean (simple_world raster_4x4 zones_A_B)
                  ''ndvi.tif'' ''fields.geojson'') = Some out \<and>
      statistics_of (rows out ! 1) = Some (m, mn, mx, c) \<and>
      c = 12 \<and> isfinite mn \<and> isfinite mx \<and> float_le mn mx \<and>
      (\<exists>window. read_window raster_4x4
                   [(1, 0), (1, 1), (1, 2), (1, 3), (2, 0), (2, 1), (2, 2), (2, 3),
                    (3, 0), (3, 1), (3, 2), (3, 3)] = Inr window \<and>
                 c \<le> int (length window))"
proof -
  let ?w = "simple_world raster_4x4 zones_A_B"
  have j: "1 < length (rows zones_A_B)"
    by (simp add: zones_A_B_def)
  note c = fixture_zone_crs(1) fixture_crs(2)
  have crs: "raster_crs raster_4x4 \<noteq> None"
    by (simp add: fixture_crs)
  have g: "the (geometry (rows zones_A_B ! 1)) =
      [(1, 0), (1, 1), (1, 2), (1, 3), (2, 0), (2, 1), (2, 2), (2, 3),
       (3, 0), (3, 1), (3, 2), (3, 3)]"
    by (simp add: zones_A_B_def zone_def)
  note files = fixture_files [of raster_4x4 zones_A_B]
  from min_max_ordered_count_bounded [OF files j crs fixture_geometries(1), unfolded reprojected_same_crs [OF c] g]
  obtain out m mn mx k where o:
      "returned (compute_zonal_mean ?w ''ndvi.tif'' ''fields.geojson'') = Some out"
      "statistics_of (rows out ! 1) = Some (m, mn, mx, k)"
      "0 < k \<longrightarrow>
         isfinite mn \<and> isfinite mx \<and> float_le mn mx \<and>
         (\<exists>window. read_window raster_4x4
                   [(1, 0), (1, 1), (1, 2), (1, 3), (2, 0), (2, 1), (2, 2), (2, 3),
                    (3, 0), (3, 1), (3, 2), (3, 3)] = Inr window \<and>
                 k \<le> int (length window))"
    by blast
  have ne: "rows zones_A_B \<noteq> []"
    using j by auto
  from compute_zonal_mean_ok [OF files ne crs fixture_geometries(1)]
  obtain lg out' where p: "compute_zonal_mean ?w ''ndvi.tif'' ''fields.geojson'' = (lg, Inr out')"
      "\<forall>i < length (rows zones_A_B).
         cells (rows out' ! i) =
           result_cells zones_A_B i (zone_outcome raster_4x4 (reprojected ?w raster_4x4 zones_A_B i))"
    by blast
  from p(1) o(1) have same: "out' = out"
    by (simp add: returned_def)
  from p(2) j have "cells (rows out ! 1) =
      result_cells zones_A_B 1 (zone_outcome raster_4x4 (reprojected ?w raster_4x4 zones_A_B 1))"
    unfolding same by blast
  then have "statistics_of (rows out ! 1) = Some (zone_outcome raster_4x4
      [(1, 0), (1, 1), (1, 2), (1, 3), (2, 0), (2, 1), (2, 2), (2, 3),
       (3, 0), (3, 1), (3, 2), (3, 3)])"
    unfolding reprojected_same_crs [OF c] g by (rule statistics_of_cells)
  then have "statistics_of (rows out ! 1) = Some (Finite 1, Finite 1, Finite 1, 12)"
    unfolding zone_outcome_4x4_B .
  with o(2) have "k = 12" by simp
  with o show ?thesis by auto
qed

end
